theory Spec2Isabelle
  imports Main "HOL-Library.Word"
begin

section \<open>The policy engine of src/nm-policy.c\<close>

text \<open>
  The engine (NMPolicy) is a single object that reacts to events of its collaborators:
  the manager, the settings store, the devices, the DNS manager and the default-route
  manager. The embedding keeps the engine's private fields and the cells of the
  collaborators that the engine reads and writes in one record, \<open>world\<close>; what the
  collaborators answer when asked during one handler run is the record \<open>env\<close>; every
  call that leaves the engine is appended to the field \<open>calls\<close>, in program order.
  Only warnings (\<open>_LOGW\<close>) are kept of the log lines; info and debug lines are left out.
\<close>

subsection \<open>Handles and enumerations\<close>

text \<open>GObject pointers are handles; a pointer that may be NULL is an \<open>option\<close>.\<close>

type_synonym device_ptr = nat
type_synonym active_ptr = nat
type_synonym connection_ptr = nat

text \<open>
  The 32-bit integers of the source. Both are words; a \<open>gint32\<close> is compared with the signed
  order (\<open>\<le>s\<close>, \<open><s\<close>) and read with \<open>sint\<close>, a \<open>guint32\<close> with \<open>unat\<close>.
\<close>

type_synonym gint32 = "32 word"
type_synonym guint32 = "32 word"

text \<open>
  Modelled from the spec: the enumeration NMDeviceState is declared in a public header that
  is not under src/. The states and their order are those of the device state machine
  (UNMANAGED .. FAILED); the numeric values are the header's.
\<close>

datatype NMDeviceState =
    NM_DEVICE_STATE_UNKNOWN
  | NM_DEVICE_STATE_UNMANAGED
  | NM_DEVICE_STATE_UNAVAILABLE
  | NM_DEVICE_STATE_DISCONNECTED
  | NM_DEVICE_STATE_PREPARE
  | NM_DEVICE_STATE_CONFIG
  | NM_DEVICE_STATE_NEED_AUTH
  | NM_DEVICE_STATE_IP_CONFIG
  | NM_DEVICE_STATE_IP_CHECK
  | NM_DEVICE_STATE_SECONDARIES
  | NM_DEVICE_STATE_ACTIVATED
  | NM_DEVICE_STATE_DEACTIVATING
  | NM_DEVICE_STATE_FAILED

fun device_state_value :: "NMDeviceState \<Rightarrow> nat" where
  "device_state_value NM_DEVICE_STATE_UNKNOWN = 0"
| "device_state_value NM_DEVICE_STATE_UNMANAGED = 10"
| "device_state_value NM_DEVICE_STATE_UNAVAILABLE = 20"
| "device_state_value NM_DEVICE_STATE_DISCONNECTED = 30"
| "device_state_value NM_DEVICE_STATE_PREPARE = 40"
| "device_state_value NM_DEVICE_STATE_CONFIG = 50"
| "device_state_value NM_DEVICE_STATE_NEED_AUTH = 60"
| "device_state_value NM_DEVICE_STATE_IP_CONFIG = 70"
| "device_state_value NM_DEVICE_STATE_IP_CHECK = 80"
| "device_state_value NM_DEVICE_STATE_SECONDARIES = 90"
| "device_state_value NM_DEVICE_STATE_ACTIVATED = 100"
| "device_state_value NM_DEVICE_STATE_DEACTIVATING = 110"
| "device_state_value NM_DEVICE_STATE_FAILED = 120"

text \<open>
  The state reasons the engine tests or passes on; every other reason of the header is
  \<open>NM_DEVICE_STATE_REASON_OTHER\<close> with its number.
\<close>

datatype NMDeviceStateReason =
    NM_DEVICE_STATE_REASON_NONE
  | NM_DEVICE_STATE_REASON_NO_SECRETS
  | NM_DEVICE_STATE_REASON_USER_REQUESTED
  | NM_DEVICE_STATE_REASON_CARRIER
  | NM_DEVICE_STATE_REASON_CONNECTION_REMOVED
  | NM_DEVICE_STATE_REASON_SECONDARY_CONNECTION_FAILED
  | NM_DEVICE_STATE_REASON_OTHER nat

text \<open>
  Modelled from the spec: the enumeration NMActiveConnectionState, declared outside src/,
  with the header's numeric values.
\<close>

datatype NMActiveConnectionState =
    NM_ACTIVE_CONNECTION_STATE_UNKNOWN
  | NM_ACTIVE_CONNECTION_STATE_ACTIVATING
  | NM_ACTIVE_CONNECTION_STATE_ACTIVATED
  | NM_ACTIVE_CONNECTION_STATE_DEACTIVATING
  | NM_ACTIVE_CONNECTION_STATE_DEACTIVATED

fun active_state_value :: "NMActiveConnectionState \<Rightarrow> nat" where
  "active_state_value NM_ACTIVE_CONNECTION_STATE_UNKNOWN = 0"
| "active_state_value NM_ACTIVE_CONNECTION_STATE_ACTIVATING = 1"
| "active_state_value NM_ACTIVE_CONNECTION_STATE_ACTIVATED = 2"
| "active_state_value NM_ACTIVE_CONNECTION_STATE_DEACTIVATING = 3"
| "active_state_value NM_ACTIVE_CONNECTION_STATE_DEACTIVATED = 4"

datatype NMDnsIPConfigType =
    NM_DNS_IP_CONFIG_TYPE_DEFAULT
  | NM_DNS_IP_CONFIG_TYPE_BEST_DEVICE
  | NM_DNS_IP_CONFIG_TYPE_VPN

datatype NMActivationType = NM_ACTIVATION_TYPE_FULL | NM_ACTIVATION_TYPE_ASSUME

datatype property =
    PROP_DEFAULT_IP4_DEVICE
  | PROP_DEFAULT_IP6_DEVICE
  | PROP_ACTIVATING_IP4_DEVICE
  | PROP_ACTIVATING_IP6_DEVICE

datatype socket_family = G_SOCKET_FAMILY_IPV4 | G_SOCKET_FAMILY_IPV6

subsection \<open>Objects of the collaborators\<close>

text \<open>An IP configuration object: its identity and its addresses, in order.\<close>

record ip_config =
  config_handle :: nat
  config_addresses :: "nat list"

text \<open>The GInetAddress the reverse lookup resolves.\<close>

record inet_address =
  address_bytes :: nat
  address_family :: socket_family

text \<open>
  An applied connection (NMConnection): the copy of a configuration that an active session
  runs with, taken when the session was created. The engine reads its UUID.
\<close>

record NMConnection =
  con_uuid :: string
  con_secondaries :: "string list"

text \<open>
  An active session (NMActiveConnection; a VPN session is an NMVpnConnection, a subclass).
  The fields are what the engine reads through the getters and writes through the setters.
\<close>

record NMActiveConnection =
  ac_settings_connection :: "connection_ptr option"
  ac_applied_connection :: "NMConnection option"
  ac_state :: NMActiveConnectionState
  ac_device :: "device_ptr option"
  ac_default :: bool
  ac_default6 :: bool
  ac_is_vpn :: bool
  ac_vpn_ip4_config :: "ip_config option"
  ac_vpn_ip6_config :: "ip_config option"
  ac_subject_internal :: bool

text \<open>
  A configuration of the settings store (NMSettingsConnection) with the cells of the retry
  ledger: \<open>autoconnect_retries\<close> (read into a \<open>guint32\<close>), the blocked reason and the
  retry deadline \<open>autoconnect_retry_time\<close> (a \<open>gint32\<close> of monotonic seconds, 0 when unset).
\<close>

record NMSettingsConnection =
  sc_uuid :: string
  sc_master :: "string option"
  sc_is_vpn :: bool
  sc_secondaries :: "string list"
  sc_visible :: bool
  autoconnect_retries :: guint32
  autoconnect_blocked_reason :: NMDeviceStateReason
  autoconnect_retry_time :: gint32
  sc_secrets_cached :: bool

text \<open>PendingSecondaryData: a device and the secondary sessions it still waits for.\<close>

record PendingSecondaryData =
  psd_device :: device_ptr
  psd_secondaries :: "active_ptr list"

subsection \<open>Calls that leave the engine\<close>

datatype warning =
    LOGW_dhcp4_hostname_invalid string
  | LOGW_dhcp6_hostname_invalid string
  | LOGW_gethostname_failed
  | LOGW_secondary_not_found string
  | LOGW_secondary_not_vpn string
  | LOGW_secondary_activation_failed string
  | LOGW_error_deactivating connection_ptr
  | G_WARN_IF_REACHED
  | G_WARN_IF_FAIL

datatype call =
    Call_notify property
  | Call_dns_begin_updates
  | Call_dns_end_updates
  | Call_dns_add_ip4_config "string option" ip_config NMDnsIPConfigType
  | Call_dns_add_ip6_config "string option" ip_config NMDnsIPConfigType
  | Call_dns_set_hostname "string option"
  | Call_settings_set_transient_hostname string
  | Call_cancellable_cancel
  | Call_resolver_lookup_by_address_async inet_address
  | Call_device_queue_state device_ptr NMDeviceState NMDeviceStateReason
  | Call_device_state_changed device_ptr NMDeviceState NMDeviceStateReason
  | Call_device_add_pending_action device_ptr
  | Call_manager_activate_connection connection_ptr "device_ptr option" NMActivationType
  | Call_manager_deactivate_connection active_ptr NMDeviceStateReason
  | Call_idle_add_schedule_activate_all
  | Call_log_warning warning

subsection \<open>The engine's state and its environment\<close>

text \<open>
  The first thirteen fields are the state that NMPolicyPrivate holds (its handles to the
  collaborators and its signal ids are left out). \<open>reset_retries_id\<close> is the source id of the
  reset timer: \<open>None\<close> for 0, otherwise the interval in seconds it was armed with.
  \<open>schedule_activate_all_id\<close> and \<open>lookup_cancellable\<close> say whether the idle task and the
  cancellation handle exist. \<open>pending_activation_checks\<close> holds the devices of the queued
  ActivateData records. The remaining fields are cells owned by the collaborators.
\<close>

record world =
  default_device4 :: "device_ptr option"
  activating_device4 :: "device_ptr option"
  default_device6 :: "device_ptr option"
  activating_device6 :: "device_ptr option"
  pending_activation_checks :: "device_ptr list"
  pending_secondaries :: "PendingSecondaryData list"
  lookup_addr :: "inet_address option"
  lookup_cancellable :: bool
  reset_retries_id :: "guint32 option"
  schedule_activate_all_id :: bool
  orig_hostname :: "string option"
  cur_hostname :: "string option"
  hostname_changed :: bool
  actives :: "active_ptr \<Rightarrow> NMActiveConnection"
  connections :: "connection_ptr \<Rightarrow> NMSettingsConnection"
  device_state :: "device_ptr \<Rightarrow> NMDeviceState"
  calls :: "call list"

text \<open>What the default-route manager's get_best_config hands back through its out-parameters.\<close>

record best_config =
  best_ip_config :: ip_config
  best_ip_iface :: "string option"
  best_ac :: "active_ptr option"
  best_device :: "device_ptr option"
  best_vpn :: "active_ptr option"

text \<open>
  The answers of the collaborators during one handler run. The fields carry the names of
  the functions the engine calls. \<open>gethostname\<close> is \<open>None\<close> when the system call fails.
  \<open>autoconnect_retry_time_policy\<close> is the deadline the settings object supplies when the
  retry counter is written (from the new counter and the old deadline), and
  \<open>autoconnect_retries_default\<close> the value a reset gives the counter: both are opaque to
  the engine.
\<close>

record env =
  nm_manager_get_active_connections :: "active_ptr list"
  nm_manager_asleep :: bool
  nm_manager_hostname :: "string option"
  nm_settings_get_connections_sorted :: "connection_ptr list"
  nm_settings_get_connection_by_uuid :: "string \<Rightarrow> connection_ptr option"
  ip4_get_best_config :: "bool \<Rightarrow> best_config option"
  ip6_get_best_config :: "bool \<Rightarrow> best_config option"
  ip4_get_best_device :: "bool \<Rightarrow> device_ptr option \<Rightarrow> device_ptr option"
  ip6_get_best_device :: "bool \<Rightarrow> device_ptr option \<Rightarrow> device_ptr option"
  nm_device_get_settings_connection :: "device_ptr \<Rightarrow> connection_ptr option"
  nm_device_get_act_request :: "device_ptr \<Rightarrow> active_ptr option"
  nm_device_get_iface :: "device_ptr \<Rightarrow> string"
  nm_device_get_ip_iface :: "device_ptr \<Rightarrow> string option"
  nm_device_get_ip4_config :: "device_ptr \<Rightarrow> ip_config option"
  nm_device_get_ip6_config :: "device_ptr \<Rightarrow> ip_config option"
  nm_device_get_dhcp4_config :: "device_ptr \<Rightarrow> (string \<Rightarrow> string option) option"
  nm_device_get_dhcp6_config :: "device_ptr \<Rightarrow> (string \<Rightarrow> string option) option"
  nm_device_get_enabled :: "device_ptr \<Rightarrow> bool"
  nm_device_get_autoconnect :: "device_ptr \<Rightarrow> bool"
  nm_device_autoconnect_allowed :: "device_ptr \<Rightarrow> bool"
  nm_device_is_software :: "device_ptr \<Rightarrow> bool"
  nm_device_check_connection_compatible :: "device_ptr \<Rightarrow> connection_ptr \<Rightarrow> bool"
  nm_manager_activate_connection :: "connection_ptr \<Rightarrow> active_ptr option"
  nm_manager_deactivate_connection :: "active_ptr \<Rightarrow> bool"
  nm_utils_is_specific_hostname :: "string \<Rightarrow> bool"
  nm_utils_get_monotonic_timestamp_s :: gint32
  gethostname :: "string option"
  autoconnect_retry_time_policy :: "guint32 \<Rightarrow> gint32 \<Rightarrow> gint32"
  autoconnect_retries_default :: guint32

text \<open>A failed \<open>g_assert\<close> aborts the process: the handler has no resulting world.\<close>

datatype abort = G_ASSERT_FAILED

definition log_call :: "call \<Rightarrow> world \<Rightarrow> world" where
  "log_call c w = w\<lparr>calls := calls w @ [c]\<rparr>"

text \<open>\<open>_notify (self, prop)\<close>.\<close>

definition notify :: "property \<Rightarrow> world \<Rightarrow> world" where
  "notify p w = log_call (Call_notify p) w"

subsection \<open>Default selection: update_default_ac, update_ip4_routing, update_ip6_routing\<close>

text \<open>
  Modelled from the spec: the flag setters and the device setter of an active session are
  defined outside src/; each writes its cell of the session.
\<close>

definition nm_active_connection_set_default :: "active_ptr \<Rightarrow> bool \<Rightarrow> world \<Rightarrow> world" where
  "nm_active_connection_set_default a b w =
     w\<lparr>actives := (actives w)(a := (actives w a)\<lparr>ac_default := b\<rparr>)\<rparr>"

definition nm_active_connection_set_default6 :: "active_ptr \<Rightarrow> bool \<Rightarrow> world \<Rightarrow> world" where
  "nm_active_connection_set_default6 a b w =
     w\<lparr>actives := (actives w)(a := (actives w a)\<lparr>ac_default6 := b\<rparr>)\<rparr>"

definition nm_active_connection_set_device :: "active_ptr \<Rightarrow> device_ptr \<Rightarrow> world \<Rightarrow> world" where
  "nm_active_connection_set_device a d w =
     w\<lparr>actives := (actives w)(a := (actives w a)\<lparr>ac_device := Some d\<rparr>)\<rparr>"

text \<open>
  The loop of update_default_ac (lines 426-429): the flag is cleared on every session of
  the manager's list that is not \<open>best\<close>.
\<close>

fun clear_default_loop ::
  "active_ptr option \<Rightarrow> (active_ptr \<Rightarrow> bool \<Rightarrow> world \<Rightarrow> world) \<Rightarrow> active_ptr list \<Rightarrow> world \<Rightarrow> world" where
  "clear_default_loop best set_active_func [] w = w"
| "clear_default_loop best set_active_func (a # rest) w =
     clear_default_loop best set_active_func rest
       (if Some a \<noteq> best then set_active_func a False w else w)"

definition update_default_ac ::
  "env \<Rightarrow> active_ptr option \<Rightarrow> (active_ptr \<Rightarrow> bool \<Rightarrow> world \<Rightarrow> world) \<Rightarrow> world \<Rightarrow> world" where
  "update_default_ac e best set_active_func w =
     (let w1 = clear_default_loop best set_active_func (nm_manager_get_active_connections e) w
      in case best of None \<Rightarrow> w1 | Some b \<Rightarrow> set_active_func b True w1)"

text \<open>
  The same run, observed: the world after each iteration of the loop, in order, and then
  the world after the final \<open>set_active_func (best, TRUE)\<close>.
\<close>

fun clear_default_trace ::
  "active_ptr option \<Rightarrow> (active_ptr \<Rightarrow> bool \<Rightarrow> world \<Rightarrow> world) \<Rightarrow> active_ptr list \<Rightarrow> world \<Rightarrow> world list" where
  "clear_default_trace best set_active_func [] w = []"
| "clear_default_trace best set_active_func (a # rest) w =
     (let w1 = (if Some a \<noteq> best then set_active_func a False w else w)
      in w1 # clear_default_trace best set_active_func rest w1)"

definition update_default_ac_trace ::
  "env \<Rightarrow> active_ptr option \<Rightarrow> (active_ptr \<Rightarrow> bool \<Rightarrow> world \<Rightarrow> world) \<Rightarrow> world \<Rightarrow> world list" where
  "update_default_ac_trace e best set_active_func w =
     w # clear_default_trace best set_active_func (nm_manager_get_active_connections e) w
       @ [update_default_ac e best set_active_func w]"

text \<open>The sessions of the manager's list that carry a flag, each counted once.\<close>

definition flagged_sessions :: "env \<Rightarrow> (NMActiveConnection \<Rightarrow> bool) \<Rightarrow> world \<Rightarrow> active_ptr list" where
  "flagged_sessions e flag w =
     filter (\<lambda>a. flag (actives w a)) (remdups (nm_manager_get_active_connections e))"

text \<open>
  The loop of update_ip4_routing (lines 503-511) and of update_ip6_routing (598-606): a VPN
  session with an IP configuration of the family and no device is attributed to \<open>best\<close>.
\<close>

fun attribute_vpn_loop ::
  "(NMActiveConnection \<Rightarrow> ip_config option) \<Rightarrow> device_ptr \<Rightarrow> active_ptr list \<Rightarrow> world \<Rightarrow> world" where
  "attribute_vpn_loop vpn_config best [] w = w"
| "attribute_vpn_loop vpn_config best (a # rest) w =
     attribute_vpn_loop vpn_config best rest
       (if ac_is_vpn (actives w a) \<and> vpn_config (actives w a) \<noteq> None
           \<and> ac_device (actives w a) = None
        then nm_active_connection_set_device a best w else w)"

definition update_ip4_routing :: "env \<Rightarrow> bool \<Rightarrow> world \<Rightarrow> abort + world" where
  "update_ip4_routing e force_update w =
     (case ip4_get_best_config e False of
        None \<Rightarrow>
          (let changed = (default_device4 w \<noteq> None);
               w1 = w\<lparr>default_device4 := None\<rparr>
           in Inr (if changed then notify PROP_DEFAULT_IP4_DEVICE w1 else w1))
      | Some bc \<Rightarrow>
          (let best = best_device bc; vpn = best_vpn bc in
           if \<not> ((best \<noteq> None \<or> vpn \<noteq> None) \<and> best_ac bc \<noteq> None) then Inl G_ASSERT_FAILED
           else if \<not> force_update \<and> best \<noteq> None \<and> best = default_device4 w then Inr w
           else
             (let w1 = (case best of
                          None \<Rightarrow> w
                        | Some b \<Rightarrow> attribute_vpn_loop ac_vpn_ip4_config b
                                     (nm_manager_get_active_connections e) w);
                  default_device = (case vpn of
                                      Some v \<Rightarrow> ac_device (actives w1 v)
                                    | None \<Rightarrow> best);
                  w2 = update_default_ac e (best_ac bc) nm_active_connection_set_default w1
              in Inr (if default_device = default_device4 w2 then w2
                      else notify PROP_DEFAULT_IP4_DEVICE
                             (w2\<lparr>default_device4 := default_device\<rparr>)))))"

definition update_ip6_routing :: "env \<Rightarrow> bool \<Rightarrow> world \<Rightarrow> abort + world" where
  "update_ip6_routing e force_update w =
     (case ip6_get_best_config e False of
        None \<Rightarrow>
          (let changed = (default_device6 w \<noteq> None);
               w1 = w\<lparr>default_device6 := None\<rparr>
           in Inr (if changed then notify PROP_DEFAULT_IP6_DEVICE w1 else w1))
      | Some bc \<Rightarrow>
          (let best = best_device bc; vpn = best_vpn bc in
           if \<not> ((best \<noteq> None \<or> vpn \<noteq> None) \<and> best_ac bc \<noteq> None) then Inl G_ASSERT_FAILED
           else if \<not> force_update \<and> best \<noteq> None \<and> best = default_device6 w then Inr w
           else
             (let w1 = (case best of
                          None \<Rightarrow> w
                        | Some b \<Rightarrow> attribute_vpn_loop ac_vpn_ip6_config b
                                     (nm_manager_get_active_connections e) w);
                  default_device = (case vpn of
                                      Some v \<Rightarrow> ac_device (actives w1 v)
                                    | None \<Rightarrow> best);
                  w2 = update_default_ac e (best_ac bc) nm_active_connection_set_default6 w1
              in Inr (if default_device = default_device6 w2 then w2
                      else notify PROP_DEFAULT_IP6_DEVICE
                             (w2\<lparr>default_device6 := default_device\<rparr>)))))"

subsection \<open>Hostname controller: _set_hostname and update_system_hostname\<close>

definition FALLBACK_HOSTNAME4 :: string where
  "FALLBACK_HOSTNAME4 = ''localhost.localdomain''"

text \<open>
  GLib's \<open>g_ascii_isspace\<close> (a library outside the repository): space, horizontal tab,
  line feed, form feed and carriage return.
\<close>

definition g_ascii_isspace :: "char \<Rightarrow> bool" where
  "g_ascii_isspace c = (c \<in> {CHR 0x20, CHR 0x09, CHR 0x0A, CHR 0x0C, CHR 0x0D})"

text \<open>The name handed to the kernel and to the settings layer (lines 227-233).\<close>

definition kernel_hostname_for :: "string option \<Rightarrow> string" where
  "kernel_hostname_for new_hostname =
     (case new_hostname of
        None \<Rightarrow> FALLBACK_HOSTNAME4
      | Some h \<Rightarrow> if h = [] then FALLBACK_HOSTNAME4 else h)"

text \<open>
  \<open>_set_hostname (self, new_hostname, msg)\<close>. The message only feeds the info log line and is
  left out. \<open>g_strcmp0\<close> on two nullable strings is equality of the two options.
\<close>

definition set_hostname :: "env \<Rightarrow> string option \<Rightarrow> world \<Rightarrow> world" where
  "set_hostname e new_hostname w =
     (let w1 = (if new_hostname \<noteq> None then w\<lparr>lookup_addr := None\<rparr> else w);
          w2 = (if orig_hostname w1 \<noteq> None \<and> hostname_changed w1 = False
                   \<and> orig_hostname w1 = new_hostname then w1
                else if cur_hostname w1 = new_hostname then w1
                else log_call (Call_dns_set_hostname new_hostname)
                       (w1\<lparr>cur_hostname := new_hostname, hostname_changed := True\<rparr>));
          w3 = (if new_hostname = Some [] then log_call (Call_log_warning G_WARN_IF_REACHED) w2
                else w2);
          name = kernel_hostname_for new_hostname
      in case gethostname e of
           None \<Rightarrow>
             log_call (Call_settings_set_transient_hostname name)
               (log_call (Call_log_warning LOGW_gethostname_failed) w3)
         | Some old_hostname \<Rightarrow>
             if name = old_hostname then w3
             else log_call (Call_settings_set_transient_hostname name) w3)"

text \<open>get_best_ip4_device and get_best_ip6_device (lines 136-156).\<close>

definition get_best_ip4_device :: "env \<Rightarrow> bool \<Rightarrow> world \<Rightarrow> device_ptr option" where
  "get_best_ip4_device e fully_activated w = ip4_get_best_device e fully_activated (default_device4 w)"

definition get_best_ip6_device :: "env \<Rightarrow> bool \<Rightarrow> world \<Rightarrow> device_ptr option" where
  "get_best_ip6_device e fully_activated w = ip6_get_best_device e fully_activated (default_device6 w)"

text \<open>
  The loop that strips leading spaces (lines 341-346, 360-365): the suffix that starts at
  the first character that is not a space, or nothing when the loop runs off the end.
\<close>

fun skip_leading_spaces :: "string \<Rightarrow> string option" where
  "skip_leading_spaces [] = None"
| "skip_leading_spaces (c # cs) =
     (if \<not> g_ascii_isspace c then Some (c # cs) else skip_leading_spaces cs)"

text \<open>
  The DHCP step of the ladder (lines 332-370): a hostname to apply, a value that was
  looked at and found invalid (the warning is logged), or nothing.
\<close>

datatype dhcp_outcome = DHCP_HOSTNAME string | DHCP_INVALID warning | DHCP_NOTHING

definition dhcp_hostname_step :: "env \<Rightarrow> device_ptr option \<Rightarrow> device_ptr option \<Rightarrow> dhcp_outcome" where
  "dhcp_hostname_step e best4 best6 =
     (case best4 of
        Some d4 \<Rightarrow>
          (case nm_device_get_dhcp4_config e d4 of
             None \<Rightarrow> DHCP_NOTHING
           | Some dhcp4_config \<Rightarrow>
               (case dhcp4_config ''host_name'' of
                  None \<Rightarrow> DHCP_NOTHING
                | Some dhcp_hostname \<Rightarrow>
                    if length dhcp_hostname = 0 then DHCP_NOTHING
                    else (case skip_leading_spaces dhcp_hostname of
                            Some p \<Rightarrow> DHCP_HOSTNAME p
                          | None \<Rightarrow> DHCP_INVALID (LOGW_dhcp4_hostname_invalid dhcp_hostname))))
      | None \<Rightarrow>
          (case best6 of
             None \<Rightarrow> DHCP_NOTHING
           | Some d6 \<Rightarrow>
               (case nm_device_get_dhcp6_config e d6 of
                  None \<Rightarrow> DHCP_NOTHING
                | Some dhcp6_config \<Rightarrow>
                    (case dhcp6_config ''host_name'' of
                       None \<Rightarrow> DHCP_NOTHING
                     | Some dhcp_hostname \<Rightarrow>
                         if length dhcp_hostname = 0 then DHCP_NOTHING
                         else (case skip_leading_spaces dhcp_hostname of
                                 Some p \<Rightarrow> DHCP_HOSTNAME p
                               | None \<Rightarrow> DHCP_INVALID (LOGW_dhcp6_hostname_invalid dhcp_hostname))))))"

text \<open>
  The steps after DHCP (lines 372-410): the hostname captured at startup, else the reverse
  lookup of the first IPv4 address of \<open>best4\<close>, else of the first IPv6 address of \<open>best6\<close>,
  else the fallback literal. \<open>first_address\<close> is the test "the configuration exists and has
  at least one address", with address 0 as its result.
\<close>

definition first_address :: "ip_config option \<Rightarrow> nat option" where
  "first_address config =
     (case config of
        None \<Rightarrow> None
      | Some c \<Rightarrow> (case config_addresses c of [] \<Rightarrow> None | a # rest \<Rightarrow> Some a))"

definition startup_or_reverse_lookup ::
  "env \<Rightarrow> device_ptr option \<Rightarrow> device_ptr option \<Rightarrow> world \<Rightarrow> world" where
  "startup_or_reverse_lookup e best4 best6 w =
     (case orig_hostname w of
        Some h \<Rightarrow> set_hostname e (Some h) w
      | None \<Rightarrow>
          (let ip4_config = (case best4 of Some d \<Rightarrow> nm_device_get_ip4_config e d | None \<Rightarrow> None);
               ip6_config = (case best6 of Some d \<Rightarrow> nm_device_get_ip6_config e d | None \<Rightarrow> None);
               addr =
                 (case first_address ip4_config of
                    Some a4 \<Rightarrow> Some \<lparr>address_bytes = a4, address_family = G_SOCKET_FAMILY_IPV4\<rparr>
                  | None \<Rightarrow>
                      (case first_address ip6_config of
                         Some a6 \<Rightarrow> Some \<lparr>address_bytes = a6, address_family = G_SOCKET_FAMILY_IPV6\<rparr>
                       | None \<Rightarrow> None))
           in case addr of
                None \<Rightarrow> set_hostname e None w
              | Some a \<Rightarrow>
                  log_call (Call_resolver_lookup_by_address_async a)
                    (w\<lparr>lookup_addr := Some a, lookup_cancellable := True\<rparr>)))"

text \<open>\<open>update_system_hostname (self, best4, best6)\<close>.\<close>

definition update_system_hostname ::
  "env \<Rightarrow> device_ptr option \<Rightarrow> device_ptr option \<Rightarrow> world \<Rightarrow> world" where
  "update_system_hostname e best4 best6 w =
     (let w1 = (if lookup_cancellable w
                then log_call Call_cancellable_cancel (w\<lparr>lookup_cancellable := False\<rparr>)
                else w);
          configured_hostname = nm_manager_hostname e
      in if (case configured_hostname of
               None \<Rightarrow> False
             | Some h \<Rightarrow> nm_utils_is_specific_hostname e h)
         then set_hostname e configured_hostname w1
         else
           (let b4 = (case best4 of None \<Rightarrow> get_best_ip4_device e True w1 | Some d \<Rightarrow> Some d);
                b6 = (case best6 of None \<Rightarrow> get_best_ip6_device e True w1 | Some d \<Rightarrow> Some d)
            in if b4 = None \<and> b6 = None then set_hostname e (orig_hostname w1) w1
               else
                 (case dhcp_hostname_step e b4 b6 of
                    DHCP_HOSTNAME p \<Rightarrow> set_hostname e (Some p) w1
                  | DHCP_INVALID warn \<Rightarrow>
                      startup_or_reverse_lookup e b4 b6 (log_call (Call_log_warning warn) w1)
                  | DHCP_NOTHING \<Rightarrow> startup_or_reverse_lookup e b4 b6 w1)))"

subsection \<open>Retry ledger\<close>

text \<open>
  Modelled from the spec: the setters of the settings store's cells are defined outside
  src/. Writing the retry counter stores it, and the deadline becomes what the settings
  object supplies (\<open>autoconnect_retry_time_policy\<close>); a reset writes the default counter;
  the blocked reason and the cached secrets are cells of their own.
\<close>

definition nm_settings_connection_set_autoconnect_retries ::
  "env \<Rightarrow> connection_ptr \<Rightarrow> guint32 \<Rightarrow> world \<Rightarrow> world" where
  "nm_settings_connection_set_autoconnect_retries e c retries w =
     w\<lparr>connections := (connections w)
          (c := (connections w c)
             \<lparr>autoconnect_retries := retries,
              autoconnect_retry_time :=
                autoconnect_retry_time_policy e retries (autoconnect_retry_time (connections w c))\<rparr>)\<rparr>"

definition nm_settings_connection_reset_autoconnect_retries ::
  "env \<Rightarrow> connection_ptr \<Rightarrow> world \<Rightarrow> world" where
  "nm_settings_connection_reset_autoconnect_retries e c w =
     nm_settings_connection_set_autoconnect_retries e c (autoconnect_retries_default e) w"

definition nm_settings_connection_set_autoconnect_blocked_reason ::
  "connection_ptr \<Rightarrow> NMDeviceStateReason \<Rightarrow> world \<Rightarrow> world" where
  "nm_settings_connection_set_autoconnect_blocked_reason c reason w =
     w\<lparr>connections := (connections w)
          (c := (connections w c)\<lparr>autoconnect_blocked_reason := reason\<rparr>)\<rparr>"

definition nm_connection_clear_secrets :: "connection_ptr \<Rightarrow> world \<Rightarrow> world" where
  "nm_connection_clear_secrets c w =
     w\<lparr>connections := (connections w)(c := (connections w c)\<lparr>sc_secrets_cached := False\<rparr>)\<rparr>"

text \<open>schedule_activate_all: the idle task is cleared and added again.\<close>

definition schedule_activate_all :: "world \<Rightarrow> world" where
  "schedule_activate_all w =
     log_call Call_idle_add_schedule_activate_all (w\<lparr>schedule_activate_all_id := True\<rparr>)"

text \<open>
  The loop of reset_connections_retries (lines 1086-1098), on the world, \<open>min_stamp\<close> and
  \<open>changed\<close>.
\<close>

fun reset_connections_retries_loop ::
  "env \<Rightarrow> gint32 \<Rightarrow> connection_ptr list \<Rightarrow> world \<times> gint32 \<times> bool \<Rightarrow> world \<times> gint32 \<times> bool" where
  "reset_connections_retries_loop e now [] (w, min_stamp, changed) = (w, min_stamp, changed)"
| "reset_connections_retries_loop e now (connection # rest) (w, min_stamp, changed) =
     (let con_stamp = autoconnect_retry_time (connections w connection)
      in if con_stamp = 0 then reset_connections_retries_loop e now rest (w, min_stamp, changed)
         else if con_stamp \<le>s now
         then reset_connections_retries_loop e now rest
                (nm_settings_connection_reset_autoconnect_retries e connection w, min_stamp, True)
         else if min_stamp = 0 \<or> con_stamp <s min_stamp
         then reset_connections_retries_loop e now rest (w, con_stamp, changed)
         else reset_connections_retries_loop e now rest (w, min_stamp, changed))"

text \<open>reset_connections_retries, the handler of the reset timer.\<close>

definition reset_connections_retries :: "env \<Rightarrow> world \<Rightarrow> world" where
  "reset_connections_retries e w =
     (let now = nm_utils_get_monotonic_timestamp_s e;
          (w1, min_stamp, changed) =
             reset_connections_retries_loop e now (nm_settings_get_connections_sorted e)
               (w\<lparr>reset_retries_id := None\<rparr>, 0, False);
          w2 = (if min_stamp \<noteq> 0 then w1\<lparr>reset_retries_id := Some (min_stamp - now)\<rparr> else w1)
      in if changed then schedule_activate_all w2 else w2)"

text \<open>reset_autoconnect_all; \<open>device\<close> may be NULL.\<close>

fun reset_autoconnect_all_loop ::
  "env \<Rightarrow> device_ptr option \<Rightarrow> connection_ptr list \<Rightarrow> world \<Rightarrow> world" where
  "reset_autoconnect_all_loop e device [] w = w"
| "reset_autoconnect_all_loop e device (c # rest) w =
     reset_autoconnect_all_loop e device rest
       (if (case device of
              None \<Rightarrow> True
            | Some d \<Rightarrow> nm_device_check_connection_compatible e d c)
        then nm_settings_connection_set_autoconnect_blocked_reason c NM_DEVICE_STATE_REASON_NONE
               (nm_settings_connection_reset_autoconnect_retries e c w)
        else w)"

definition reset_autoconnect_all :: "env \<Rightarrow> device_ptr option \<Rightarrow> world \<Rightarrow> world" where
  "reset_autoconnect_all e device w =
     reset_autoconnect_all_loop e device (nm_settings_get_connections_sorted e) w"

fun reset_autoconnect_for_failed_secrets_loop :: "env \<Rightarrow> connection_ptr list \<Rightarrow> world \<Rightarrow> world" where
  "reset_autoconnect_for_failed_secrets_loop e [] w = w"
| "reset_autoconnect_for_failed_secrets_loop e (c # rest) w =
     reset_autoconnect_for_failed_secrets_loop e rest
       (if autoconnect_blocked_reason (connections w c) = NM_DEVICE_STATE_REASON_NO_SECRETS
        then nm_settings_connection_set_autoconnect_blocked_reason c NM_DEVICE_STATE_REASON_NONE
               (nm_settings_connection_reset_autoconnect_retries e c w)
        else w)"

definition reset_autoconnect_for_failed_secrets :: "env \<Rightarrow> world \<Rightarrow> world" where
  "reset_autoconnect_for_failed_secrets e w =
     reset_autoconnect_for_failed_secrets_loop e (nm_settings_get_connections_sorted e) w"

fun block_autoconnect_loop :: "env \<Rightarrow> device_ptr \<Rightarrow> connection_ptr list \<Rightarrow> world \<Rightarrow> world" where
  "block_autoconnect_loop e device [] w = w"
| "block_autoconnect_loop e device (c # rest) w =
     block_autoconnect_loop e device rest
       (if nm_device_check_connection_compatible e device c
        then nm_settings_connection_set_autoconnect_blocked_reason c
               NM_DEVICE_STATE_REASON_USER_REQUESTED w
        else w)"

definition block_autoconnect_for_device :: "env \<Rightarrow> device_ptr \<Rightarrow> world \<Rightarrow> world" where
  "block_autoconnect_for_device e device w =
     (if \<not> nm_device_is_software e device then w
      else block_autoconnect_loop e device (nm_settings_get_connections_sorted e) w)"

subsection \<open>Activation checks\<close>

text \<open>
  schedule_activate_check. find_pending_activation is membership of the device among the
  queued checks.
\<close>

definition schedule_activate_check :: "env \<Rightarrow> device_ptr \<Rightarrow> world \<Rightarrow> world" where
  "schedule_activate_check e device w =
     (if nm_manager_asleep e then w
      else if \<not> nm_device_get_enabled e device then w
      else if \<not> nm_device_autoconnect_allowed e device then w
      else if device \<in> set (pending_activation_checks w) then w
      else if list_ex (\<lambda>a. ac_device (actives w a) = Some device)
                (nm_manager_get_active_connections e) then w
      else log_call (Call_device_add_pending_action device)
             (w\<lparr>pending_activation_checks := pending_activation_checks w @ [device]\<rparr>))"

fun activate_slave_loop ::
  "env \<Rightarrow> string \<Rightarrow> string option \<Rightarrow> string option \<Rightarrow> connection_ptr list \<Rightarrow> world \<Rightarrow> world" where
  "activate_slave_loop e master_device master_uuid_applied master_uuid_settings [] w = w"
| "activate_slave_loop e master_device master_uuid_applied master_uuid_settings (slave # rest) w =
     activate_slave_loop e master_device master_uuid_applied master_uuid_settings rest
       (case sc_master (connections w slave) of
          None \<Rightarrow> w
        | Some slave_master \<Rightarrow>
            if slave_master = master_device
               \<or> Some slave_master = master_uuid_applied
               \<or> Some slave_master = master_uuid_settings
            then nm_settings_connection_reset_autoconnect_retries e slave w
            else w)"

definition activate_slave_connections :: "env \<Rightarrow> device_ptr \<Rightarrow> world \<Rightarrow> world" where
  "activate_slave_connections e device w =
     (let master_device = nm_device_get_iface e device;
          req = nm_device_get_act_request e device;
          master_uuid_applied =
            (case req of None \<Rightarrow> None
             | Some r \<Rightarrow> map_option con_uuid (ac_applied_connection (actives w r)));
          master_uuid_settings =
            (case req of None \<Rightarrow> None
             | Some r \<Rightarrow>
                 (case ac_settings_connection (actives w r) of
                    None \<Rightarrow> None
                  | Some con \<Rightarrow>
                      if Some (sc_uuid (connections w con)) = master_uuid_applied then None
                      else Some (sc_uuid (connections w con))));
          internal_activation =
            (case req of None \<Rightarrow> False | Some r \<Rightarrow> ac_subject_internal (actives w r));
          connections_list =
            (if \<not> internal_activation then nm_settings_get_connections_sorted e else [])
      in schedule_activate_all
           (activate_slave_loop e master_device master_uuid_applied master_uuid_settings
              connections_list w))"

subsection \<open>Secondary connections\<close>

text \<open>
  Modelled from the spec: the two transition operations of a device are defined outside
  src/. \<open>nm_device_queue_state\<close> asks for a transition that happens later;
  \<open>nm_device_state_changed\<close> puts the device into the new state at once. The handlers the
  device runs on the transition are outside the model.
\<close>

definition nm_device_queue_state ::
  "device_ptr \<Rightarrow> NMDeviceState \<Rightarrow> NMDeviceStateReason \<Rightarrow> world \<Rightarrow> world" where
  "nm_device_queue_state d s r w = log_call (Call_device_queue_state d s r) w"

definition nm_device_state_changed ::
  "device_ptr \<Rightarrow> NMDeviceState \<Rightarrow> NMDeviceStateReason \<Rightarrow> world \<Rightarrow> world" where
  "nm_device_state_changed d s r w =
     log_call (Call_device_state_changed d s r) (w\<lparr>device_state := (device_state w)(d := s)\<rparr>)"

text \<open>
  The inner loop of process_secondaries (lines 893-931) over one wait list. The first
  list is what is left to visit, the second the wait list as it stands
  (\<open>g_slist_remove\<close> takes out the first occurrence). The loop ends with the list that
  remains, or breaks because the list became empty or because the secondary failed.
\<close>

datatype secondaries_outcome =
    SECONDARIES_REMAIN "active_ptr list"
  | SECONDARIES_ALL_ACTIVATED
  | SECONDARIES_FAILED

fun process_secondaries_inner ::
  "active_ptr \<Rightarrow> bool \<Rightarrow> active_ptr list \<Rightarrow> active_ptr list \<Rightarrow> secondaries_outcome" where
  "process_secondaries_inner active connected [] secondaries = SECONDARIES_REMAIN secondaries"
| "process_secondaries_inner active connected (secondary_active # rest) secondaries =
     (if active \<noteq> secondary_active
      then process_secondaries_inner active connected rest secondaries
      else if connected
      then (let secondaries' = remove1 secondary_active secondaries
            in if secondaries' = [] then SECONDARIES_ALL_ACTIVATED
               else process_secondaries_inner active connected rest secondaries')
      else SECONDARIES_FAILED)"

text \<open>
  The outer loop (lines 886-932) over the wait records: a record stays (with its list
  updated in place) or is unlinked; the records that stay are returned in their order.
\<close>

fun process_secondaries_loop ::
  "active_ptr \<Rightarrow> bool \<Rightarrow> PendingSecondaryData list \<Rightarrow> world
     \<Rightarrow> PendingSecondaryData list \<times> world" where
  "process_secondaries_loop active connected [] w = ([], w)"
| "process_secondaries_loop active connected (secondary_data # rest) w =
     (let item_device = psd_device secondary_data
      in case process_secondaries_inner active connected
                (psd_secondaries secondary_data) (psd_secondaries secondary_data) of
           SECONDARIES_REMAIN secondaries \<Rightarrow>
             (let (kept, w') = process_secondaries_loop active connected rest w
              in (secondary_data\<lparr>psd_secondaries := secondaries\<rparr> # kept, w'))
         | SECONDARIES_ALL_ACTIVATED \<Rightarrow>
             process_secondaries_loop active connected rest
               (if device_state w item_device = NM_DEVICE_STATE_SECONDARIES
                then nm_device_state_changed item_device NM_DEVICE_STATE_ACTIVATED
                       NM_DEVICE_STATE_REASON_NONE w
                else w)
         | SECONDARIES_FAILED \<Rightarrow>
             process_secondaries_loop active connected rest
               (if device_state w item_device = NM_DEVICE_STATE_SECONDARIES
                   \<or> device_state w item_device = NM_DEVICE_STATE_ACTIVATED
                then nm_device_state_changed item_device NM_DEVICE_STATE_FAILED
                       NM_DEVICE_STATE_REASON_SECONDARY_CONNECTION_FAILED w
                else w))"

definition process_secondaries :: "active_ptr \<Rightarrow> bool \<Rightarrow> world \<Rightarrow> world" where
  "process_secondaries active connected w =
     (let (kept, w') = process_secondaries_loop active connected (pending_secondaries w) w
      in w'\<lparr>pending_secondaries := kept\<rparr>)"

text \<open>active_connection_state_changed, on the state the session reports.\<close>

definition active_connection_state_changed :: "active_ptr \<Rightarrow> world \<Rightarrow> world" where
  "active_connection_state_changed active w =
     (let state = ac_state (actives w active)
      in if state = NM_ACTIVE_CONNECTION_STATE_ACTIVATED then process_secondaries active True w
         else if state = NM_ACTIVE_CONNECTION_STATE_DEACTIVATED
         then process_secondaries active False w
         else w)"

text \<open>
  The loop of activate_secondary_connections (lines 1188-1231): the sessions started so
  far, and whether every secondary could be started. \<open>g_assert (req)\<close> aborts.
\<close>

fun activate_secondary_loop ::
  "env \<Rightarrow> device_ptr \<Rightarrow> string list \<Rightarrow> active_ptr list \<Rightarrow> world
     \<Rightarrow> abort + (bool \<times> active_ptr list \<times> world)" where
  "activate_secondary_loop e device [] secondary_ac_list w = Inr (True, secondary_ac_list, w)"
| "activate_secondary_loop e device (sec_uuid # rest) secondary_ac_list w =
     (case nm_settings_get_connection_by_uuid e sec_uuid of
        None \<Rightarrow>
          Inr (False, secondary_ac_list,
               log_call (Call_log_warning (LOGW_secondary_not_found sec_uuid)) w)
      | Some settings_con \<Rightarrow>
          if \<not> sc_is_vpn (connections w settings_con)
          then Inr (False, secondary_ac_list,
                    log_call (Call_log_warning (LOGW_secondary_not_vpn sec_uuid)) w)
          else if nm_device_get_act_request e device = None then Inl G_ASSERT_FAILED
          else
            (let w1 = log_call (Call_manager_activate_connection settings_con (Some device)
                                  NM_ACTIVATION_TYPE_FULL) w
             in case nm_manager_activate_connection e settings_con of
                  Some ac \<Rightarrow> activate_secondary_loop e device rest (secondary_ac_list @ [ac]) w1
                | None \<Rightarrow>
                    Inr (False, secondary_ac_list,
                         log_call (Call_log_warning (LOGW_secondary_activation_failed sec_uuid))
                           w1)))"

definition activate_secondary_connections ::
  "env \<Rightarrow> connection_ptr \<Rightarrow> device_ptr \<Rightarrow> world \<Rightarrow> abort + (bool \<times> world)" where
  "activate_secondary_connections e connection device w =
     (case activate_secondary_loop e device (sc_secondaries (connections w connection)) [] w of
        Inl a \<Rightarrow> Inl a
      | Inr (success, secondary_ac_list, w1) \<Rightarrow>
          if success \<and> secondary_ac_list \<noteq> []
          then Inr (success,
                    w1\<lparr>pending_secondaries := pending_secondaries w1
                          @ [\<lparr>psd_device = device, psd_secondaries = secondary_ac_list\<rparr>]\<rparr>)
          else Inr (success, w1))"

subsection \<open>DNS reconciliation and the device state observer\<close>

definition update_ip4_dns :: "env \<Rightarrow> world \<Rightarrow> world" where
  "update_ip4_dns e w =
     (case ip4_get_best_config e True of
        None \<Rightarrow> w
      | Some bc \<Rightarrow>
          log_call (Call_dns_add_ip4_config (best_ip_iface bc) (best_ip_config bc)
                      (if best_vpn bc \<noteq> None then NM_DNS_IP_CONFIG_TYPE_VPN
                       else NM_DNS_IP_CONFIG_TYPE_BEST_DEVICE)) w)"

definition update_ip6_dns :: "env \<Rightarrow> world \<Rightarrow> world" where
  "update_ip6_dns e w =
     (case ip6_get_best_config e True of
        None \<Rightarrow> w
      | Some bc \<Rightarrow>
          log_call (Call_dns_add_ip6_config (best_ip_iface bc) (best_ip_config bc)
                      (if best_vpn bc \<noteq> None then NM_DNS_IP_CONFIG_TYPE_VPN
                       else NM_DNS_IP_CONFIG_TYPE_BEST_DEVICE)) w)"

definition update_routing_and_dns :: "env \<Rightarrow> bool \<Rightarrow> world \<Rightarrow> abort + world" where
  "update_routing_and_dns e force_update w =
     (let w1 = log_call Call_dns_begin_updates w;
          w2 = update_ip4_dns e w1;
          w3 = update_ip6_dns e w2
      in case update_ip4_routing e force_update w3 of
           Inl a \<Rightarrow> Inl a
         | Inr w4 \<Rightarrow>
             (case update_ip6_routing e force_update w4 of
                Inl a \<Rightarrow> Inl a
              | Inr w5 \<Rightarrow>
                  Inr (log_call Call_dns_end_updates
                         (update_system_hostname e (default_device4 w5) (default_device6 w5) w5))))"

definition check_activating_devices :: "env \<Rightarrow> world \<Rightarrow> world" where
  "check_activating_devices e w =
     (let best4 = get_best_ip4_device e False w;
          best6 = get_best_ip6_device e False w;
          w1 = (if best4 \<noteq> activating_device4 w
                then notify PROP_ACTIVATING_IP4_DEVICE (w\<lparr>activating_device4 := best4\<rparr>)
                else w)
      in if best6 \<noteq> activating_device6 w1
         then notify PROP_ACTIVATING_IP6_DEVICE (w1\<lparr>activating_device6 := best6\<rparr>)
         else w1)"

text \<open>The arm \<open>case NM_DEVICE_STATE_FAILED\<close> of device_state_changed (lines 1260-1293).\<close>

definition device_failed :: "env \<Rightarrow> device_ptr \<Rightarrow> NMDeviceState \<Rightarrow> NMDeviceStateReason \<Rightarrow> world \<Rightarrow> world" where
  "device_failed e device old_state reason w =
     (case nm_device_get_settings_connection e device of
        None \<Rightarrow> w
      | Some connection \<Rightarrow>
          if device_state_value old_state \<ge> device_state_value NM_DEVICE_STATE_PREPARE
             \<and> device_state_value old_state \<le> device_state_value NM_DEVICE_STATE_ACTIVATED
          then
            (let tries = autoconnect_retries (connections w connection);
                 w1 = (if reason = NM_DEVICE_STATE_REASON_NO_SECRETS
                       then nm_settings_connection_set_autoconnect_blocked_reason connection
                              NM_DEVICE_STATE_REASON_NO_SECRETS w
                       else if 0 < tries
                       then nm_settings_connection_set_autoconnect_retries e connection (tries - 1) w
                       else w);
                 w2 = (if autoconnect_retries (connections w1 connection) = 0
                       then (if reset_retries_id w1 = None
                             then (let retry_time = autoconnect_retry_time (connections w1 connection);
                                       w1' = (if retry_time \<noteq> 0 then w1
                                              else log_call (Call_log_warning G_WARN_IF_FAIL) w1);
                                       d = retry_time - nm_utils_get_monotonic_timestamp_s e
                                   in w1'\<lparr>reset_retries_id := Some (if d <s 0 then 0 else d)\<rparr>)
                             else w1)
                       else w1)
             in nm_connection_clear_secrets connection w2)
          else w)"

text \<open>The arm \<open>case NM_DEVICE_STATE_ACTIVATED\<close> (lines 1294-1320).\<close>

definition device_activated :: "env \<Rightarrow> device_ptr \<Rightarrow> world \<Rightarrow> abort + world" where
  "device_activated e device w =
     (let ip_iface = nm_device_get_ip_iface e device;
          w1 = (case nm_device_get_settings_connection e device of
                  None \<Rightarrow> w
                | Some connection \<Rightarrow>
                    nm_connection_clear_secrets connection
                      (nm_settings_connection_reset_autoconnect_retries e connection w));
          w2 = log_call Call_dns_begin_updates w1;
          w3 = (case nm_device_get_ip4_config e device of
                  None \<Rightarrow> w2
                | Some ip4_config \<Rightarrow>
                    log_call (Call_dns_add_ip4_config ip_iface ip4_config
                                NM_DNS_IP_CONFIG_TYPE_DEFAULT) w2);
          w4 = (case nm_device_get_ip6_config e device of
                  None \<Rightarrow> w3
                | Some ip6_config \<Rightarrow>
                    log_call (Call_dns_add_ip6_config ip_iface ip6_config
                                NM_DNS_IP_CONFIG_TYPE_DEFAULT) w3)
      in case update_routing_and_dns e False w4 of
           Inl a \<Rightarrow> Inl a
         | Inr w5 \<Rightarrow> Inr (log_call Call_dns_end_updates w5))"

text \<open>The arm \<open>case NM_DEVICE_STATE_DEACTIVATING\<close> (lines 1326-1341).\<close>

definition device_deactivating :: "env \<Rightarrow> device_ptr \<Rightarrow> NMDeviceStateReason \<Rightarrow> world \<Rightarrow> world" where
  "device_deactivating e device reason w =
     (if reason = NM_DEVICE_STATE_REASON_USER_REQUESTED
      then (if \<not> nm_device_get_autoconnect e device then block_autoconnect_for_device e device w
            else (case nm_device_get_settings_connection e device of
                    None \<Rightarrow> w
                  | Some connection \<Rightarrow>
                      nm_settings_connection_set_autoconnect_blocked_reason connection
                        NM_DEVICE_STATE_REASON_USER_REQUESTED w))
      else w)"

text \<open>The arm \<open>case NM_DEVICE_STATE_DISCONNECTED\<close> (lines 1342-1354).\<close>

definition device_disconnected ::
  "env \<Rightarrow> device_ptr \<Rightarrow> NMDeviceState \<Rightarrow> NMDeviceStateReason \<Rightarrow> world \<Rightarrow> abort + world" where
  "device_disconnected e device old_state reason w =
     (let w1 = (if reason = NM_DEVICE_STATE_REASON_CARRIER
                   \<and> old_state = NM_DEVICE_STATE_UNAVAILABLE
                then reset_autoconnect_all e (Some device) w else w)
      in case (if device_state_value old_state > device_state_value NM_DEVICE_STATE_DISCONNECTED
               then update_routing_and_dns e False w1 else Inr w1) of
           Inl a \<Rightarrow> Inl a
         | Inr w2 \<Rightarrow> Inr (schedule_activate_check e device w2))"

text \<open>
  The arm \<open>case NM_DEVICE_STATE_SECONDARIES\<close> (lines 1366-1380). The list of secondaries is
  read from the device's settings connection.
\<close>

definition device_secondaries :: "env \<Rightarrow> device_ptr \<Rightarrow> world \<Rightarrow> abort + world" where
  "device_secondaries e device w =
     (case nm_device_get_settings_connection e device of
        None \<Rightarrow>
          Inr (nm_device_queue_state device NM_DEVICE_STATE_ACTIVATED NM_DEVICE_STATE_REASON_NONE w)
      | Some connection \<Rightarrow>
          if length (sc_secondaries (connections w connection)) > 0
          then (case update_routing_and_dns e False w of
                  Inl a \<Rightarrow> Inl a
                | Inr w1 \<Rightarrow>
                    (case activate_secondary_connections e connection device w1 of
                       Inl a \<Rightarrow> Inl a
                     | Inr (success, w2) \<Rightarrow>
                         if \<not> success
                         then Inr (nm_device_queue_state device NM_DEVICE_STATE_FAILED
                                     NM_DEVICE_STATE_REASON_SECONDARY_CONNECTION_FAILED w2)
                         else Inr w2))
          else Inr (nm_device_queue_state device NM_DEVICE_STATE_ACTIVATED
                      NM_DEVICE_STATE_REASON_NONE w))"

text \<open>
  device_state_changed: the switch over the new state, then check_activating_devices.
\<close>

definition device_state_changed ::
  "env \<Rightarrow> device_ptr \<Rightarrow> NMDeviceState \<Rightarrow> NMDeviceState \<Rightarrow> NMDeviceStateReason \<Rightarrow> world
     \<Rightarrow> abort + world" where
  "device_state_changed e device new_state old_state reason w =
     (case (case new_state of
              NM_DEVICE_STATE_FAILED \<Rightarrow> Inr (device_failed e device old_state reason w)
            | NM_DEVICE_STATE_ACTIVATED \<Rightarrow> device_activated e device w
            | NM_DEVICE_STATE_UNMANAGED \<Rightarrow>
                if device_state_value old_state > device_state_value NM_DEVICE_STATE_DISCONNECTED
                then update_routing_and_dns e False w else Inr w
            | NM_DEVICE_STATE_UNAVAILABLE \<Rightarrow>
                if device_state_value old_state > device_state_value NM_DEVICE_STATE_DISCONNECTED
                then update_routing_and_dns e False w else Inr w
            | NM_DEVICE_STATE_DEACTIVATING \<Rightarrow> Inr (device_deactivating e device reason w)
            | NM_DEVICE_STATE_DISCONNECTED \<Rightarrow> device_disconnected e device old_state reason w
            | NM_DEVICE_STATE_PREPARE \<Rightarrow> Inr (activate_slave_connections e device w)
            | NM_DEVICE_STATE_IP_CONFIG \<Rightarrow>
                (case nm_device_get_settings_connection e device of
                   None \<Rightarrow> Inr w
                 | Some connection \<Rightarrow>
                     Inr (nm_settings_connection_set_autoconnect_blocked_reason connection
                            NM_DEVICE_STATE_REASON_NONE w))
            | NM_DEVICE_STATE_SECONDARIES \<Rightarrow> device_secondaries e device w
            | NM_DEVICE_STATE_UNKNOWN \<Rightarrow> Inr w
            | NM_DEVICE_STATE_CONFIG \<Rightarrow> Inr w
            | NM_DEVICE_STATE_NEED_AUTH \<Rightarrow> Inr w
            | NM_DEVICE_STATE_IP_CHECK \<Rightarrow> Inr w) of
        Inl a \<Rightarrow> Inl a
      | Inr w1 \<Rightarrow> Inr (check_activating_devices e w1))"

subsection \<open>Settings events\<close>

text \<open>
  _deactivate_if_active. What the manager does with a deactivation request is outside the
  model: the request is recorded, and the answer is the environment's.
\<close>

fun deactivate_if_active_loop :: "env \<Rightarrow> connection_ptr \<Rightarrow> active_ptr list \<Rightarrow> world \<Rightarrow> world" where
  "deactivate_if_active_loop e connection [] w = w"
| "deactivate_if_active_loop e connection (ac # rest) w =
     deactivate_if_active_loop e connection rest
       (let state = ac_state (actives w ac)
        in if ac_settings_connection (actives w ac) = Some connection
              \<and> active_state_value state \<le> active_state_value NM_ACTIVE_CONNECTION_STATE_ACTIVATED
           then (let w1 = log_call (Call_manager_deactivate_connection ac
                                      NM_DEVICE_STATE_REASON_CONNECTION_REMOVED) w
                 in if \<not> nm_manager_deactivate_connection e ac
                    then log_call (Call_log_warning (LOGW_error_deactivating connection)) w1
                    else w1)
           else w)"

definition deactivate_if_active :: "env \<Rightarrow> connection_ptr \<Rightarrow> world \<Rightarrow> world" where
  "deactivate_if_active e connection w =
     deactivate_if_active_loop e connection (nm_manager_get_active_connections e) w"

text \<open>secret_agent_registered.\<close>

definition secret_agent_registered :: "env \<Rightarrow> world \<Rightarrow> world" where
  "secret_agent_registered e w =
     schedule_activate_all (reset_autoconnect_for_failed_secrets e w)"

definition connection_removed :: "env \<Rightarrow> connection_ptr \<Rightarrow> world \<Rightarrow> world" where
  "connection_removed e connection w = deactivate_if_active e connection w"

definition connection_visibility_changed :: "env \<Rightarrow> connection_ptr \<Rightarrow> world \<Rightarrow> world" where
  "connection_visibility_changed e connection w =
     (if sc_visible (connections w connection) then schedule_activate_all w
      else deactivate_if_active e connection w)"

subsection \<open>Notions used in the statements about the retry ledger\<close>

text \<open>
  A configuration's retry deadline is set and at or before \<open>now\<close>, or set and after \<open>now\<close>.
\<close>

definition retry_deadline_passed :: "gint32 \<Rightarrow> NMSettingsConnection \<Rightarrow> bool" where
  "retry_deadline_passed now sc =
     (autoconnect_retry_time sc \<noteq> 0 \<and> autoconnect_retry_time sc \<le>s now)"

definition retry_deadline_pending :: "gint32 \<Rightarrow> NMSettingsConnection \<Rightarrow> bool" where
  "retry_deadline_pending now sc =
     (autoconnect_retry_time sc \<noteq> 0 \<and> \<not> autoconnect_retry_time sc \<le>s now)"

subsection \<open>Notions used in the statements about settings events\<close>

text \<open>
  The active sessions that run a given configuration and whose state is at most ACTIVATED,
  in the order of the manager's list.
\<close>

definition sessions_to_deactivate :: "env \<Rightarrow> connection_ptr \<Rightarrow> world \<Rightarrow> active_ptr list" where
  "sessions_to_deactivate e connection w =
     filter (\<lambda>a. ac_settings_connection (actives w a) = Some connection
                \<and> active_state_value (ac_state (actives w a))
                    \<le> active_state_value NM_ACTIVE_CONNECTION_STATE_ACTIVATED)
       (nm_manager_get_active_connections e)"

text \<open>What one deactivation request adds to the calls: the request, and a warning if it fails.\<close>

definition deactivation_calls :: "env \<Rightarrow> connection_ptr \<Rightarrow> active_ptr \<Rightarrow> call list" where
  "deactivation_calls e connection a =
     Call_manager_deactivate_connection a NM_DEVICE_STATE_REASON_CONNECTION_REMOVED
       # (if nm_manager_deactivate_connection e a then []
          else [Call_log_warning (LOGW_error_deactivating connection)])"

subsection \<open>Concrete worlds and environments\<close>

text \<open>
  An engine just constructed, with no device and no session, and an environment in which
  every collaborator answers "nothing". The examples below are updates of the two.
\<close>

definition world0 :: world where
  "world0 = \<lparr>default_device4 = None, activating_device4 = None, default_device6 = None,
     activating_device6 = None, pending_activation_checks = [], pending_secondaries = [],
     lookup_addr = None, lookup_cancellable = False, reset_retries_id = None,
     schedule_activate_all_id = False, orig_hostname = None, cur_hostname = None,
     hostname_changed = False,
     actives = (\<lambda>_. \<lparr>ac_settings_connection = None, ac_applied_connection = None,
        ac_state = NM_ACTIVE_CONNECTION_STATE_UNKNOWN, ac_device = None, ac_default = False,
        ac_default6 = False, ac_is_vpn = False, ac_vpn_ip4_config = None,
        ac_vpn_ip6_config = None, ac_subject_internal = False\<rparr>),
     connections = (\<lambda>_. \<lparr>sc_uuid = [], sc_master = None, sc_is_vpn = False,
        sc_secondaries = [], sc_visible = True, autoconnect_retries = 4,
        autoconnect_blocked_reason = NM_DEVICE_STATE_REASON_NONE, autoconnect_retry_time = 0,
        sc_secrets_cached = False\<rparr>),
     device_state = (\<lambda>_. NM_DEVICE_STATE_UNKNOWN),
     calls = []\<rparr>"

definition env0 :: env where
  "env0 = \<lparr>nm_manager_get_active_connections = [],
     nm_manager_asleep = False, nm_manager_hostname = None,
     nm_settings_get_connections_sorted = [],
     nm_settings_get_connection_by_uuid = (\<lambda>_. None),
     ip4_get_best_config = (\<lambda>_. None), ip6_get_best_config = (\<lambda>_. None),
     ip4_get_best_device = (\<lambda>_ _. None), ip6_get_best_device = (\<lambda>_ _. None),
     nm_device_get_settings_connection = (\<lambda>_. None),
     nm_device_get_act_request = (\<lambda>_. None),
     nm_device_get_iface = (\<lambda>_. ''eth0''),
     nm_device_get_ip_iface = (\<lambda>_. Some ''eth0''),
     nm_device_get_ip4_config = (\<lambda>_. None), nm_device_get_ip6_config = (\<lambda>_. None),
     nm_device_get_dhcp4_config = (\<lambda>_. None), nm_device_get_dhcp6_config = (\<lambda>_. None),
     nm_device_get_enabled = (\<lambda>_. True), nm_device_get_autoconnect = (\<lambda>_. True),
     nm_device_autoconnect_allowed = (\<lambda>_. True), nm_device_is_software = (\<lambda>_. False),
     nm_device_check_connection_compatible = (\<lambda>_ _. True),
     nm_manager_activate_connection = (\<lambda>_. None),
     nm_manager_deactivate_connection = (\<lambda>_. True),
     nm_utils_is_specific_hostname = (\<lambda>h. h \<noteq> ''localhost''),
     nm_utils_get_monotonic_timestamp_s = 1000,
     gethostname = Some ''localhost'',
     autoconnect_retry_time_policy = (\<lambda>n old. if n \<noteq> 0 then 0 else 1300),
     autoconnect_retries_default = 4\<rparr>"

text \<open>Three active sessions, of which session 1 carries both default flags.\<close>

definition env_two_sessions :: env where
  "env_two_sessions = env0\<lparr>nm_manager_get_active_connections := [1, 2, 3]\<rparr>"

definition world_one_default :: world where
  "world_one_default = nm_active_connection_set_default6 1 True
      (nm_active_connection_set_default 1 True world0)"

text \<open>
  One active session, 1, which carries both default flags while device 7 is the stored
  default of both families; the default-route manager reports no best configuration.
\<close>

definition env_no_best :: env where
  "env_no_best = env0\<lparr>nm_manager_get_active_connections := [1]\<rparr>"

definition world_flagged :: world where
  "world_flagged = nm_active_connection_set_default6 1 True
      (nm_active_connection_set_default 1 True
         (world0\<lparr>default_device4 := Some 7, default_device6 := Some 7\<rparr>))"

text \<open>
  A VPN session, 5, attributed to device 9, is the best configuration of both families
  while the default-route manager names no best device.
\<close>

definition vpn_only_config :: best_config where
  "vpn_only_config = \<lparr>best_ip_config = \<lparr>config_handle = 1, config_addresses = [167772161]\<rparr>,
     best_ip_iface = Some ''tun0'', best_ac = Some 5, best_device = None, best_vpn = Some 5\<rparr>"

definition env_vpn_only :: env where
  "env_vpn_only = env0\<lparr>nm_manager_get_active_connections := [5],
     ip4_get_best_config := (\<lambda>_. Some vpn_only_config),
     ip6_get_best_config := (\<lambda>_. Some vpn_only_config)\<rparr>"

definition world_vpn_only :: world where
  "world_vpn_only = nm_active_connection_set_device 5 9
     (world0\<lparr>actives := (actives world0)(5 := (actives world0 5)\<lparr>ac_is_vpn := True\<rparr>)\<rparr>)"

text \<open>
  The engine has decided on the hostname "myhost", while the kernel still reports
  "localhost".
\<close>

definition env_kernel_differs :: env where
  "env_kernel_differs = env0\<lparr>gethostname := Some ''localhost''\<rparr>"

definition world_named :: world where
  "world_named = world0\<lparr>cur_hostname := Some ''myhost'', hostname_changed := True\<rparr>"

text \<open>The best IPv4 device offers the DHCP option host_name with the given value.\<close>

definition dhcp_options_with_host_name :: "string \<Rightarrow> string \<Rightarrow> string option" where
  "dhcp_options_with_host_name v k = (if k = ''host_name'' then Some v else None)"

definition env_dhcp4 :: "string \<Rightarrow> env" where
  "env_dhcp4 v = env0\<lparr>nm_device_get_dhcp4_config := (\<lambda>d. Some (dhcp_options_with_host_name v))\<rparr>"

text \<open>
  Device 1 runs configuration 2, which has one retry left and cached secrets; the clock
  stands at 1000 and the settings object supplies the deadline 1300 for a counter of zero.
\<close>

definition env_failed :: env where
  "env_failed = env0\<lparr>nm_device_get_settings_connection := (\<lambda>d. if d = 1 then Some 2 else None)\<rparr>"

definition world_last_try :: world where
  "world_last_try = world0\<lparr>connections := (connections world0)
      (2 := (connections world0 2)\<lparr>autoconnect_retries := 1, sc_secrets_cached := True\<rparr>)\<rparr>"

text \<open>
  The settings store lists configurations 2 and 3. Both have used up their retries; the
  deadline of 2 (900) has passed and 2 is blocked by the user, the deadline of 3 (1200) is
  still ahead.
\<close>

definition env_ledger :: env where
  "env_ledger = env0\<lparr>nm_settings_get_connections_sorted := [2, 3]\<rparr>"

definition world_ledger :: world where
  "world_ledger = world0\<lparr>connections := (connections world0)
      (2 := (connections world0 2)\<lparr>autoconnect_retries := 0, autoconnect_retry_time := 900,
               autoconnect_blocked_reason := NM_DEVICE_STATE_REASON_USER_REQUESTED\<rparr>,
       3 := (connections world0 3)\<lparr>autoconnect_retries := 0, autoconnect_retry_time := 1200\<rparr>)\<rparr>"

text \<open>
  Device 1 waits for the secondaries 5 and 6, device 2 for the secondary 7; both devices
  are in SECONDARIES.
\<close>

definition world_waiting :: world where
  "world_waiting = world0\<lparr>pending_secondaries :=
       [\<lparr>psd_device = 1, psd_secondaries = [5, 6]\<rparr>, \<lparr>psd_device = 2, psd_secondaries = [7]\<rparr>],
     device_state := (\<lambda>d. NM_DEVICE_STATE_SECONDARIES)\<rparr>"

text \<open>
  Device 1 runs the session 3 of configuration 2. The settings connection 2 was given the
  secondary "vpn-uuid" (the VPN configuration 4, which the manager starts as session 6)
  after the session was created: the applied connection of session 3 declares none.
\<close>

definition env_secondary :: env where
  "env_secondary = env0\<lparr>nm_manager_get_active_connections := [3],
     nm_settings_get_connection_by_uuid := (\<lambda>u. if u = ''vpn-uuid'' then Some 4 else None),
     nm_device_get_settings_connection := (\<lambda>d. if d = 1 then Some 2 else None),
     nm_device_get_act_request := (\<lambda>d. if d = 1 then Some 3 else None),
     nm_manager_activate_connection := (\<lambda>c. if c = 4 then Some 6 else None)\<rparr>"

definition world_secondary :: world where
  "world_secondary = world0\<lparr>
     actives := (actives world0)
       (3 := (actives world0 3)\<lparr>ac_settings_connection := Some 2,
                ac_applied_connection := Some \<lparr>con_uuid = ''base'', con_secondaries = []\<rparr>,
                ac_device := Some 1\<rparr>),
     connections := (connections world0)
       (2 := (connections world0 2)\<lparr>sc_uuid := ''base'', sc_secondaries := [''vpn-uuid'']\<rparr>,
        4 := (connections world0 4)\<lparr>sc_uuid := ''vpn-uuid'', sc_is_vpn := True\<rparr>)\<rparr>"

text \<open>
  Sessions 1, 2 and 3 run configuration 7: 1 is activated, 2 is deactivating, 3 is
  activating. The manager refuses to deactivate session 1.
\<close>

definition env_removed :: env where
  "env_removed = env0\<lparr>nm_manager_get_active_connections := [1, 2, 3],
     nm_manager_deactivate_connection := (\<lambda>a. a \<noteq> 1)\<rparr>"

definition world_removed :: world where
  "world_removed = world0\<lparr>
     actives := (actives world0)
       (1 := (actives world0 1)\<lparr>ac_settings_connection := Some 7,
                ac_state := NM_ACTIVE_CONNECTION_STATE_ACTIVATED\<rparr>,
        2 := (actives world0 2)\<lparr>ac_settings_connection := Some 7,
                ac_state := NM_ACTIVE_CONNECTION_STATE_DEACTIVATING\<rparr>,
        3 := (actives world0 3)\<lparr>ac_settings_connection := Some 7,
                ac_state := NM_ACTIVE_CONNECTION_STATE_ACTIVATING\<rparr>)\<rparr>"

section \<open>Verified properties\<close>

subsection \<open>update_default_ac keeps at most one default session\<close>

lemma clear_loop_default_actives:
  "ac_default (actives (clear_default_loop best nm_active_connection_set_default xs w) a)
     = (ac_default (actives w a) \<and> (a \<in> set xs \<longrightarrow> Some a = best))"
  by (induction xs arbitrary: w) (auto simp: nm_active_connection_set_default_def)

lemma clear_loop_default6_actives:
  "ac_default6 (actives (clear_default_loop best nm_active_connection_set_default6 xs w) a)
     = (ac_default6 (actives w a) \<and> (a \<in> set xs \<longrightarrow> Some a = best))"
  by (induction xs arbitrary: w) (auto simp: nm_active_connection_set_default6_def)

lemma filter_at_most_one:
  "distinct xs \<Longrightarrow> (\<And>x. x \<in> set xs \<Longrightarrow> P x \<Longrightarrow> x = b) \<Longrightarrow> length (filter P xs) \<le> 1"
proof (induction xs)
  case Nil
  then show ?case by simp
next
  case (Cons x xs)
  show ?case
  proof (cases "P x")
    case True
    then have xb: "x = b" using Cons.prems(2) by simp
    have "filter P xs = []"
    proof (rule ccontr)
      assume "filter P xs \<noteq> []"
      then obtain y where y: "y \<in> set xs" "P y" by (auto simp: filter_empty_conv)
      then have "y = b" using Cons.prems(2) by simp
      then show False using y xb Cons.prems(1) by simp
    qed
    then show ?thesis using True by simp
  next
    case False
    then show ?thesis using Cons by simp
  qed
qed

lemma filter_mono_length:
  "(\<And>x. x \<in> set xs \<Longrightarrow> P x \<Longrightarrow> Q x) \<Longrightarrow> length (filter P xs) \<le> length (filter Q xs)"
  by (induction xs) auto

lemma update_default_ac_flag4:
  "ac_default (actives (update_default_ac e best nm_active_connection_set_default w) a)
     = (Some a = best \<or> (ac_default (actives w a) \<and> a \<notin> set (nm_manager_get_active_connections e)))"
  by (cases best)
     (auto simp: update_default_ac_def Let_def clear_loop_default_actives
                 nm_active_connection_set_default_def)

lemma update_default_ac_flag6:
  "ac_default6 (actives (update_default_ac e best nm_active_connection_set_default6 w) a)
     = (Some a = best \<or> (ac_default6 (actives w a) \<and> a \<notin> set (nm_manager_get_active_connections e)))"
  by (cases best)
     (auto simp: update_default_ac_def Let_def clear_loop_default6_actives
                 nm_active_connection_set_default6_def)

lemma update_default_ac_final4:
  "length (flagged_sessions e ac_default (update_default_ac e best nm_active_connection_set_default w)) \<le> 1"
  unfolding flagged_sessions_def
  by (rule filter_at_most_one[where b = "the best"]) (auto simp: update_default_ac_flag4)

lemma update_default_ac_final6:
  "length (flagged_sessions e ac_default6 (update_default_ac e best nm_active_connection_set_default6 w)) \<le> 1"
  unfolding flagged_sessions_def
  by (rule filter_at_most_one[where b = "the best"]) (auto simp: update_default_ac_flag6)

lemma clear_trace_shrinks4:
  "w' \<in> set (clear_default_trace best nm_active_connection_set_default xs w) \<Longrightarrow>
   ac_default (actives w' a) \<Longrightarrow> ac_default (actives w a)"
proof (induction xs arbitrary: w)
  case Nil
  then show ?case by simp
next
  case (Cons x xs)
  define w1 where "w1 = (if Some x \<noteq> best then nm_active_connection_set_default x False w else w)"
  have step: "ac_default (actives w1 a) \<Longrightarrow> ac_default (actives w a)"
    by (auto simp: w1_def nm_active_connection_set_default_def split: if_splits)
  from Cons.prems(1) have "w' = w1 \<or> w' \<in> set (clear_default_trace best nm_active_connection_set_default xs w1)"
    by (simp add: Let_def w1_def)
  then show ?case
  proof
    assume "w' = w1"
    then show ?thesis using Cons.prems(2) step by simp
  next
    assume "w' \<in> set (clear_default_trace best nm_active_connection_set_default xs w1)"
    then have "ac_default (actives w1 a)" using Cons.IH Cons.prems(2) by blast
    then show ?thesis by (rule step)
  qed
qed

lemma clear_trace_shrinks6:
  "w' \<in> set (clear_default_trace best nm_active_connection_set_default6 xs w) \<Longrightarrow>
   ac_default6 (actives w' a) \<Longrightarrow> ac_default6 (actives w a)"
proof (induction xs arbitrary: w)
  case Nil
  then show ?case by simp
next
  case (Cons x xs)
  define w1 where "w1 = (if Some x \<noteq> best then nm_active_connection_set_default6 x False w else w)"
  have step: "ac_default6 (actives w1 a) \<Longrightarrow> ac_default6 (actives w a)"
    by (auto simp: w1_def nm_active_connection_set_default6_def split: if_splits)
  from Cons.prems(1) have "w' = w1 \<or> w' \<in> set (clear_default_trace best nm_active_connection_set_default6 xs w1)"
    by (simp add: Let_def w1_def)
  then show ?case
  proof
    assume "w' = w1"
    then show ?thesis using Cons.prems(2) step by simp
  next
    assume "w' \<in> set (clear_default_trace best nm_active_connection_set_default6 xs w1)"
    then have "ac_default6 (actives w1 a)" using Cons.IH Cons.prems(2) by blast
    then show ?thesis by (rule step)
  qed
qed

lemma clear_loop_is_last_of_trace:
  "clear_default_loop best f xs w = last (w # clear_default_trace best f xs w)"
  by (induction xs arbitrary: w) (auto simp: Let_def)

lemma update_default_ac_trace_ends:
  "hd (update_default_ac_trace e best f w) = w
   \<and> last (update_default_ac_trace e best f w) = update_default_ac e best f w"
  by (simp add: update_default_ac_trace_def)

lemma flagged_mono:
  "(\<And>a. flag (actives w' a) \<Longrightarrow> flag (actives w a)) \<Longrightarrow>
   length (flagged_sessions e flag w') \<le> length (flagged_sessions e flag w)"
  unfolding flagged_sessions_def by (rule filter_mono_length) simp

text \<open>
  C2. After a run of update_default_ac for a family, at most one session of the manager's
  list carries the family's default flag. When at most one carried it before the run, the
  same holds in the world after every single call of the flag setter during the run: the
  loop only clears flags, and the one flag is set after the loop.
\<close>

theorem update_default_ac_at_most_one:
  "length (flagged_sessions e ac_default
      (update_default_ac e best nm_active_connection_set_default w)) \<le> 1
   \<and> length (flagged_sessions e ac_default6
      (update_default_ac e best nm_active_connection_set_default6 w)) \<le> 1
   \<and> (length (flagged_sessions e ac_default w) \<le> 1 \<longrightarrow>
        (\<forall>w' \<in> set (update_default_ac_trace e best nm_active_connection_set_default w).
           length (flagged_sessions e ac_default w') \<le> 1))
   \<and> (length (flagged_sessions e ac_default6 w) \<le> 1 \<longrightarrow>
        (\<forall>w' \<in> set (update_default_ac_trace e best nm_active_connection_set_default6 w).
           length (flagged_sessions e ac_default6 w') \<le> 1))"
proof (intro conjI impI ballI)
  show "length (flagged_sessions e ac_default
      (update_default_ac e best nm_active_connection_set_default w)) \<le> 1"
    by (rule update_default_ac_final4)
  show "length (flagged_sessions e ac_default6
      (update_default_ac e best nm_active_connection_set_default6 w)) \<le> 1"
    by (rule update_default_ac_final6)
next
  fix w'
  assume one: "length (flagged_sessions e ac_default w) \<le> 1"
    and mem: "w' \<in> set (update_default_ac_trace e best nm_active_connection_set_default w)"
  from mem consider "w' = w"
    | "w' \<in> set (clear_default_trace best nm_active_connection_set_default
                    (nm_manager_get_active_connections e) w)"
    | "w' = update_default_ac e best nm_active_connection_set_default w"
    by (auto simp: update_default_ac_trace_def)
  then show "length (flagged_sessions e ac_default w') \<le> 1"
  proof cases
    case 1
    then show ?thesis using one by simp
  next
    case 2
    have "length (flagged_sessions e ac_default w') \<le> length (flagged_sessions e ac_default w)"
      by (rule flagged_mono) (rule clear_trace_shrinks4 [OF 2])
    then show ?thesis using one by simp
  next
    case 3
    then show ?thesis using update_default_ac_final4 [of e best w] by simp
  qed
next
  fix w'
  assume one: "length (flagged_sessions e ac_default6 w) \<le> 1"
    and mem: "w' \<in> set (update_default_ac_trace e best nm_active_connection_set_default6 w)"
  from mem consider "w' = w"
    | "w' \<in> set (clear_default_trace best nm_active_connection_set_default6
                    (nm_manager_get_active_connections e) w)"
    | "w' = update_default_ac e best nm_active_connection_set_default6 w"
    by (auto simp: update_default_ac_trace_def)
  then show "length (flagged_sessions e ac_default6 w') \<le> 1"
  proof cases
    case 1
    then show ?thesis using one by simp
  next
    case 2
    have "length (flagged_sessions e ac_default6 w') \<le> length (flagged_sessions e ac_default6 w)"
      by (rule flagged_mono) (rule clear_trace_shrinks6 [OF 2])
    then show ?thesis using one by simp
  next
    case 3
    then show ?thesis using update_default_ac_final6 [of e best w] by simp
  qed
qed

theorem update_default_ac_at_most_one_witness:
  "length (flagged_sessions env_two_sessions ac_default world_one_default) \<le> 1
   \<and> map (\<lambda>w'. flagged_sessions env_two_sessions ac_default w')
        (update_default_ac_trace env_two_sessions (Some 2) nm_active_connection_set_default
           world_one_default) = [[1], [], [], [], [2]]
   \<and> length (flagged_sessions env_two_sessions ac_default6 world_one_default) \<le> 1
   \<and> map (\<lambda>w'. flagged_sessions env_two_sessions ac_default6 w')
        (update_default_ac_trace env_two_sessions (Some 2) nm_active_connection_set_default6
           world_one_default) = [[1], [], [], [], [2]]"
  using update_default_ac_at_most_one [of env_two_sessions "Some 2" world_one_default]
  by (simp add: env_two_sessions_def world_one_default_def env0_def world0_def
        update_default_ac_trace_def update_default_ac_def flagged_sessions_def
        nm_active_connection_set_default_def nm_active_connection_set_default6_def Let_def)

subsection \<open>Routing update: no best configuration, and the effective default\<close>

lemma notify_fields:
  "default_device4 (notify p w) = default_device4 w"
  "default_device6 (notify p w) = default_device6 w"
  "actives (notify p w) = actives w"
  by (simp_all add: notify_def log_call_def)

lemma clear_default_loop4_device:
  "ac_device (actives (clear_default_loop best nm_active_connection_set_default xs w) a)
     = ac_device (actives w a)"
  by (induction xs arbitrary: w) (auto simp: nm_active_connection_set_default_def)

lemma clear_default_loop6_device:
  "ac_device (actives (clear_default_loop best nm_active_connection_set_default6 xs w) a)
     = ac_device (actives w a)"
  by (induction xs arbitrary: w) (auto simp: nm_active_connection_set_default6_def)

lemma clear_default_loop4_slot:
  "default_device4 (clear_default_loop best nm_active_connection_set_default xs w) = default_device4 w"
  by (induction xs arbitrary: w) (auto simp: nm_active_connection_set_default_def)

lemma clear_default_loop6_slot:
  "default_device6 (clear_default_loop best nm_active_connection_set_default6 xs w) = default_device6 w"
  by (induction xs arbitrary: w) (auto simp: nm_active_connection_set_default6_def)

lemma update_default_ac4_device:
  "ac_device (actives (update_default_ac e best nm_active_connection_set_default w) a)
     = ac_device (actives w a)"
  by (cases best) (auto simp: update_default_ac_def Let_def clear_default_loop4_device
        nm_active_connection_set_default_def)

lemma update_default_ac6_device:
  "ac_device (actives (update_default_ac e best nm_active_connection_set_default6 w) a)
     = ac_device (actives w a)"
  by (cases best) (auto simp: update_default_ac_def Let_def clear_default_loop6_device
        nm_active_connection_set_default6_def)

lemma update_default_ac4_slot:
  "default_device4 (update_default_ac e best nm_active_connection_set_default w) = default_device4 w"
  by (cases best) (auto simp: update_default_ac_def Let_def clear_default_loop4_slot
        nm_active_connection_set_default_def)

lemma update_default_ac6_slot:
  "default_device6 (update_default_ac e best nm_active_connection_set_default6 w) = default_device6 w"
  by (cases best) (auto simp: update_default_ac_def Let_def clear_default_loop6_slot
        nm_active_connection_set_default6_def)

text \<open>
  C1, as the spec states it, fails: with no best configuration the routing update returns
  before update_default_ac, so a session that carried the default flag still carries it.
\<close>

theorem update_ip4_routing_keeps_flags_counterexample:
  "ip4_get_best_config env_no_best False = None
   \<and> 1 \<in> set (nm_manager_get_active_connections env_no_best)
   \<and> (case update_ip4_routing env_no_best False world_flagged of
        Inl x \<Rightarrow> False | Inr w' \<Rightarrow> ac_default (actives w' 1))"
  by (simp add: env_no_best_def env0_def world_flagged_def world0_def update_ip4_routing_def
        nm_active_connection_set_default_def nm_active_connection_set_default6_def
        notify_def log_call_def Let_def)

text \<open>
  C1, amended. For each family, when get_best_config returns null the routing update sets
  the family's default slot to null, leaves every session (its default flags included)
  as it was, appends one property notification exactly when the slot was non-null before,
  and changes nothing else of the world.
\<close>

theorem update_routing_no_best_config:
  "(ip4_get_best_config e False = None \<longrightarrow>
      (\<exists>w'. update_ip4_routing e force_update w = Inr w'
         \<and> default_device4 w' = None
         \<and> actives w' = actives w
         \<and> calls w' = calls w @ (if default_device4 w \<noteq> None
                                  then [Call_notify PROP_DEFAULT_IP4_DEVICE] else [])
         \<and> w' = w\<lparr>default_device4 := None, calls := calls w'\<rparr>))
   \<and> (ip6_get_best_config e False = None \<longrightarrow>
      (\<exists>w'. update_ip6_routing e force_update w = Inr w'
         \<and> default_device6 w' = None
         \<and> actives w' = actives w
         \<and> calls w' = calls w @ (if default_device6 w \<noteq> None
                                  then [Call_notify PROP_DEFAULT_IP6_DEVICE] else [])
         \<and> w' = w\<lparr>default_device6 := None, calls := calls w'\<rparr>))"
  by (simp add: update_ip4_routing_def update_ip6_routing_def notify_def log_call_def Let_def)

theorem update_routing_no_best_config_witness:
  "ip4_get_best_config env_no_best False = None
   \<and> update_ip4_routing env_no_best False world_flagged =
       Inr (world_flagged\<lparr>default_device4 := None,
              calls := [Call_notify PROP_DEFAULT_IP4_DEVICE]\<rparr>)
   \<and> ip6_get_best_config env_no_best False = None
   \<and> update_ip6_routing env_no_best True (world_flagged\<lparr>default_device6 := None\<rparr>) =
       Inr (world_flagged\<lparr>default_device6 := None\<rparr>)"
  using update_routing_no_best_config [of env_no_best False world_flagged]
  by (simp add: env_no_best_def env0_def world_flagged_def world0_def update_ip4_routing_def
        update_ip6_routing_def nm_active_connection_set_default_def
        nm_active_connection_set_default6_def notify_def log_call_def Let_def)

lemma update_ip4_routing_unfold:
  assumes "ip4_get_best_config e False = Some bc" "best_ac bc \<noteq> None"
    "best_device bc \<noteq> None \<or> best_vpn bc \<noteq> None"
    "force_update \<or> best_device bc = None \<or> best_device bc \<noteq> default_device4 w"
  defines "w1 \<equiv> (case best_device bc of None \<Rightarrow> w
       | Some b \<Rightarrow> attribute_vpn_loop ac_vpn_ip4_config b (nm_manager_get_active_connections e) w)"
  defines "dd \<equiv> (case best_vpn bc of Some v \<Rightarrow> ac_device (actives w1 v) | None \<Rightarrow> best_device bc)"
  defines "w2 \<equiv> update_default_ac e (best_ac bc) nm_active_connection_set_default w1"
  shows "update_ip4_routing e force_update w =
     Inr (if dd = default_device4 w2 then w2
          else notify PROP_DEFAULT_IP4_DEVICE (w2\<lparr>default_device4 := dd\<rparr>))"
proof -
  have g1: "\<not> \<not> ((best_device bc \<noteq> None \<or> best_vpn bc \<noteq> None) \<and> best_ac bc \<noteq> None)"
    using assms(2,3) by simp
  have g2: "\<not> (\<not> force_update \<and> best_device bc \<noteq> None \<and> best_device bc = default_device4 w)"
    using assms(4) by auto
  show ?thesis
    unfolding update_ip4_routing_def w1_def dd_def w2_def Let_def
    by (simp only: assms(1) option.case g1 g2 if_False)
qed

lemma update_ip6_routing_unfold:
  assumes "ip6_get_best_config e False = Some bc" "best_ac bc \<noteq> None"
    "best_device bc \<noteq> None \<or> best_vpn bc \<noteq> None"
    "force_update \<or> best_device bc = None \<or> best_device bc \<noteq> default_device6 w"
  defines "w1 \<equiv> (case best_device bc of None \<Rightarrow> w
       | Some b \<Rightarrow> attribute_vpn_loop ac_vpn_ip6_config b (nm_manager_get_active_connections e) w)"
  defines "dd \<equiv> (case best_vpn bc of Some v \<Rightarrow> ac_device (actives w1 v) | None \<Rightarrow> best_device bc)"
  defines "w2 \<equiv> update_default_ac e (best_ac bc) nm_active_connection_set_default6 w1"
  shows "update_ip6_routing e force_update w =
     Inr (if dd = default_device6 w2 then w2
          else notify PROP_DEFAULT_IP6_DEVICE (w2\<lparr>default_device6 := dd\<rparr>))"
proof -
  have g1: "\<not> \<not> ((best_device bc \<noteq> None \<or> best_vpn bc \<noteq> None) \<and> best_ac bc \<noteq> None)"
    using assms(2,3) by simp
  have g2: "\<not> (\<not> force_update \<and> best_device bc \<noteq> None \<and> best_device bc = default_device6 w)"
    using assms(4) by auto
  show ?thesis
    unfolding update_ip6_routing_def w1_def dd_def w2_def Let_def
    by (simp only: assms(1) option.case g1 g2 if_False)
qed

lemma update_ip4_routing_effective_default:
  assumes "ip4_get_best_config e False = Some bc" "best_ac bc \<noteq> None"
    "best_device bc \<noteq> None \<or> best_vpn bc \<noteq> None"
    "force_update \<or> best_device bc = None \<or> best_device bc \<noteq> default_device4 w"
  shows "\<exists>w'. update_ip4_routing e force_update w = Inr w'
          \<and> default_device4 w' =
              (case best_vpn bc of Some v \<Rightarrow> ac_device (actives w' v) | None \<Rightarrow> best_device bc)
          \<and> (\<forall>v. best_device bc = None \<and> best_vpn bc = Some v \<longrightarrow>
                 default_device4 w' = ac_device (actives w v))"
proof -
  define w1 where "w1 = (case best_device bc of None \<Rightarrow> w
       | Some b \<Rightarrow> attribute_vpn_loop ac_vpn_ip4_config b (nm_manager_get_active_connections e) w)"
  define dd where "dd = (case best_vpn bc of Some v \<Rightarrow> ac_device (actives w1 v) | None \<Rightarrow> best_device bc)"
  define w2 where "w2 = update_default_ac e (best_ac bc) nm_active_connection_set_default w1"
  define w' where "w' = (if dd = default_device4 w2 then w2
      else notify PROP_DEFAULT_IP4_DEVICE (w2\<lparr>default_device4 := dd\<rparr>))"
  have run: "update_ip4_routing e force_update w = Inr w'"
    unfolding w'_def w2_def dd_def w1_def by (rule update_ip4_routing_unfold [OF assms])
  have slot: "default_device4 w' = dd"
    by (simp add: w'_def notify_fields)
  have dev: "ac_device (actives w' v) = ac_device (actives w1 v)" for v
    by (simp add: w'_def notify_fields w2_def update_default_ac4_device)
  have a: "default_device4 w' =
      (case best_vpn bc of Some v \<Rightarrow> ac_device (actives w' v) | None \<Rightarrow> best_device bc)"
    by (simp add: slot dd_def dev split: option.splits)
  have b: "best_device bc = None \<and> best_vpn bc = Some v \<longrightarrow> default_device4 w' = ac_device (actives w v)" for v
    by (simp add: slot dd_def w1_def)
  show ?thesis using run a b by blast
qed

lemma update_ip6_routing_effective_default:
  assumes "ip6_get_best_config e False = Some bc" "best_ac bc \<noteq> None"
    "best_device bc \<noteq> None \<or> best_vpn bc \<noteq> None"
    "force_update \<or> best_device bc = None \<or> best_device bc \<noteq> default_device6 w"
  shows "\<exists>w'. update_ip6_routing e force_update w = Inr w'
          \<and> default_device6 w' =
              (case best_vpn bc of Some v \<Rightarrow> ac_device (actives w' v) | None \<Rightarrow> best_device bc)
          \<and> (\<forall>v. best_device bc = None \<and> best_vpn bc = Some v \<longrightarrow>
                 default_device6 w' = ac_device (actives w v))"
proof -
  define w1 where "w1 = (case best_device bc of None \<Rightarrow> w
       | Some b \<Rightarrow> attribute_vpn_loop ac_vpn_ip6_config b (nm_manager_get_active_connections e) w)"
  define dd where "dd = (case best_vpn bc of Some v \<Rightarrow> ac_device (actives w1 v) | None \<Rightarrow> best_device bc)"
  define w2 where "w2 = update_default_ac e (best_ac bc) nm_active_connection_set_default6 w1"
  define w' where "w' = (if dd = default_device6 w2 then w2
      else notify PROP_DEFAULT_IP6_DEVICE (w2\<lparr>default_device6 := dd\<rparr>))"
  have run: "update_ip6_routing e force_update w = Inr w'"
    unfolding w'_def w2_def dd_def w1_def by (rule update_ip6_routing_unfold [OF assms])
  have slot: "default_device6 w' = dd"
    by (simp add: w'_def notify_fields)
  have dev: "ac_device (actives w' v) = ac_device (actives w1 v)" for v
    by (simp add: w'_def notify_fields w2_def update_default_ac6_device)
  have a: "default_device6 w' =
      (case best_vpn bc of Some v \<Rightarrow> ac_device (actives w' v) | None \<Rightarrow> best_device bc)"
    by (simp add: slot dd_def dev split: option.splits)
  have b: "best_device bc = None \<and> best_vpn bc = Some v \<longrightarrow> default_device6 w' = ac_device (actives w v)" for v
    by (simp add: slot dd_def w1_def)
  show ?thesis using run a b by blast
qed

text \<open>
  C3. Let the default-route manager report a best configuration that passes the engine's
  assertion (a best session, and a best device or a VPN session). When the best device is
  null the update is never skipped, and it leaves the family's default slot equal to the
  device the VPN session is attributed to. In general, whenever the update is not skipped
  as "unchanged" (it is forced, or the best device is null or differs from the stored
  slot), the slot afterwards is the effective default: the VPN session's attributed device
  when a VPN session is present, the best device otherwise.
\<close>

theorem update_routing_effective_default:
  "(ip4_get_best_config e False = Some bc \<and> best_ac bc \<noteq> None
      \<and> (best_device bc \<noteq> None \<or> best_vpn bc \<noteq> None)
      \<and> (force_update \<or> best_device bc = None \<or> best_device bc \<noteq> default_device4 w)
    \<longrightarrow> (\<exists>w'. update_ip4_routing e force_update w = Inr w'
          \<and> default_device4 w' =
              (case best_vpn bc of Some v \<Rightarrow> ac_device (actives w' v) | None \<Rightarrow> best_device bc)
          \<and> (\<forall>v. best_device bc = None \<and> best_vpn bc = Some v \<longrightarrow>
                 default_device4 w' = ac_device (actives w v))))
   \<and> (ip6_get_best_config e False = Some bc \<and> best_ac bc \<noteq> None
      \<and> (best_device bc \<noteq> None \<or> best_vpn bc \<noteq> None)
      \<and> (force_update \<or> best_device bc = None \<or> best_device bc \<noteq> default_device6 w)
    \<longrightarrow> (\<exists>w'. update_ip6_routing e force_update w = Inr w'
          \<and> default_device6 w' =
              (case best_vpn bc of Some v \<Rightarrow> ac_device (actives w' v) | None \<Rightarrow> best_device bc)
          \<and> (\<forall>v. best_device bc = None \<and> best_vpn bc = Some v \<longrightarrow>
                 default_device6 w' = ac_device (actives w v))))"
proof (intro conjI impI)
  assume "ip4_get_best_config e False = Some bc \<and> best_ac bc \<noteq> None
      \<and> (best_device bc \<noteq> None \<or> best_vpn bc \<noteq> None)
      \<and> (force_update \<or> best_device bc = None \<or> best_device bc \<noteq> default_device4 w)"
  then show "\<exists>w'. update_ip4_routing e force_update w = Inr w'
          \<and> default_device4 w' =
              (case best_vpn bc of Some v \<Rightarrow> ac_device (actives w' v) | None \<Rightarrow> best_device bc)
          \<and> (\<forall>v. best_device bc = None \<and> best_vpn bc = Some v \<longrightarrow>
                 default_device4 w' = ac_device (actives w v))"
    using update_ip4_routing_effective_default [of e bc force_update w] by blast
next
  assume "ip6_get_best_config e False = Some bc \<and> best_ac bc \<noteq> None
      \<and> (best_device bc \<noteq> None \<or> best_vpn bc \<noteq> None)
      \<and> (force_update \<or> best_device bc = None \<or> best_device bc \<noteq> default_device6 w)"
  then show "\<exists>w'. update_ip6_routing e force_update w = Inr w'
          \<and> default_device6 w' =
              (case best_vpn bc of Some v \<Rightarrow> ac_device (actives w' v) | None \<Rightarrow> best_device bc)
          \<and> (\<forall>v. best_device bc = None \<and> best_vpn bc = Some v \<longrightarrow>
                 default_device6 w' = ac_device (actives w v))"
    using update_ip6_routing_effective_default [of e bc force_update w] by blast
qed

theorem update_routing_effective_default_witness:
  "ip4_get_best_config env_vpn_only False = Some vpn_only_config
   \<and> best_device vpn_only_config = None \<and> best_vpn vpn_only_config = Some 5
   \<and> best_ac vpn_only_config = Some 5
   \<and> ac_device (actives world_vpn_only 5) = Some 9
   \<and> (case update_ip4_routing env_vpn_only False world_vpn_only of
        Inl x \<Rightarrow> False | Inr w' \<Rightarrow> default_device4 w' = Some 9)
   \<and> ip6_get_best_config env_vpn_only False = Some vpn_only_config
   \<and> (case update_ip6_routing env_vpn_only False world_vpn_only of
        Inl x \<Rightarrow> False | Inr w' \<Rightarrow> default_device6 w' = Some 9)"
  using update_routing_effective_default [of env_vpn_only vpn_only_config False world_vpn_only]
  by (simp add: env_vpn_only_def vpn_only_config_def env0_def world_vpn_only_def world0_def
        update_ip4_routing_def update_ip6_routing_def update_default_ac_def
        nm_active_connection_set_default_def nm_active_connection_set_default6_def
        nm_active_connection_set_device_def notify_def log_call_def Let_def)

subsection \<open>Hostname controller\<close>

text \<open>
  C7, as the spec states it, fails: the call of the settings layer's transient-hostname
  setter does not depend on \<open>cur_hostname\<close> but on the name the kernel reports. With the
  candidate equal to \<open>cur_hostname\<close> and a kernel that reports another name, the setter
  is called.
\<close>

theorem set_hostname_same_candidate_counterexample:
  "cur_hostname world_named = Some ''myhost''
   \<and> calls (set_hostname env_kernel_differs (Some ''myhost'') world_named)
       = calls world_named @ [Call_settings_set_transient_hostname ''myhost'']"
  by (simp add: set_hostname_def env_kernel_differs_def env0_def world_named_def world0_def
        log_call_def kernel_hostname_for_def Let_def)

text \<open>
  C7, amended. When the candidate equals \<open>cur_hostname\<close>, or on the first-ever attempt
  (\<open>hostname_changed\<close> false) equals \<open>orig_hostname\<close>, _set_hostname leaves \<open>cur_hostname\<close> and
  \<open>hostname_changed\<close> unchanged and does not notify the DNS manager; \<open>lookup_addr\<close> is
  cleared when the candidate is non-null; nothing else of the engine changes. The
  transient-hostname setter is called exactly when gethostname fails or reports a name
  different from the name to set.
\<close>

theorem set_hostname_same_candidate:
  "(new_hostname = cur_hostname w
      \<or> (orig_hostname w \<noteq> None \<and> \<not> hostname_changed w \<and> new_hostname = orig_hostname w))
   \<longrightarrow>
   (let w' = set_hostname e new_hostname w in
      cur_hostname w' = cur_hostname w
      \<and> hostname_changed w' = hostname_changed w
      \<and> lookup_addr w' = (if new_hostname = None then lookup_addr w else None)
      \<and> calls w' = calls w
           @ (if new_hostname = Some [] then [Call_log_warning G_WARN_IF_REACHED] else [])
           @ (case gethostname e of
                None \<Rightarrow> [Call_log_warning LOGW_gethostname_failed,
                          Call_settings_set_transient_hostname (kernel_hostname_for new_hostname)]
              | Some old_hostname \<Rightarrow>
                  if kernel_hostname_for new_hostname = old_hostname then []
                  else [Call_settings_set_transient_hostname (kernel_hostname_for new_hostname)])
      \<and> w' = w\<lparr>lookup_addr := lookup_addr w', calls := calls w'\<rparr>)"
  by (cases "gethostname e")
     (auto simp: set_hostname_def log_call_def Let_def)

theorem set_hostname_same_candidate_witness:
  "set_hostname env_kernel_differs (Some ''myhost'') (world_named\<lparr>lookup_addr := Some \<lparr>address_bytes = 1, address_family = G_SOCKET_FAMILY_IPV4\<rparr>\<rparr>)
     = world_named\<lparr>calls := [Call_settings_set_transient_hostname ''myhost'']\<rparr>
   \<and> set_hostname (env_kernel_differs\<lparr>gethostname := Some ''myhost''\<rparr>) (Some ''myhost'') world_named
     = world_named"
  using set_hostname_same_candidate [of "Some ''myhost''" world_named env_kernel_differs]
  by (simp add: set_hostname_def env_kernel_differs_def env0_def world_named_def world0_def
        log_call_def kernel_hostname_for_def Let_def)

lemma skip_leading_spaces_eq:
  "skip_leading_spaces v =
     (if \<forall>c \<in> set v. g_ascii_isspace c then None else Some (dropWhile g_ascii_isspace v))"
  by (induction v) auto

text \<open>
  C8, as the spec states it, fails for the empty value: the guard \<open>strlen (dhcp_hostname)\<close>
  skips it before the loop and its warning, so an empty host_name is passed over silently.
\<close>

theorem dhcp_empty_host_name_counterexample:
  "dhcp_options_with_host_name [] ''host_name'' = Some []
   \<and> calls (update_system_hostname (env_dhcp4 []) (Some 1) None world0)
       = [Call_settings_set_transient_hostname ''localhost.localdomain'']"
  by (simp add: update_system_hostname_def env_dhcp4_def dhcp_options_with_host_name_def
        env0_def world0_def dhcp_hostname_step_def startup_or_reverse_lookup_def first_address_def
        set_hostname_def kernel_hostname_for_def FALLBACK_HOSTNAME4_def log_call_def Let_def
        get_best_ip4_device_def get_best_ip6_device_def)

text \<open>
  C8, amended. In the DHCP step (no specific configured hostname; the option host_name is
  present on the best IPv4 device, or there is no best IPv4 device and it is present on
  the best IPv6 device): an empty value is passed over without a warning and a non-empty
  value of only whitespace is rejected with a warning, and in both cases the ladder goes
  on with the startup hostname and then the reverse lookup; any other value is applied
  with its leading whitespace removed.
\<close>

theorem dhcp_host_name_step:
  assumes "\<not> (case nm_manager_hostname e of
                None \<Rightarrow> False
              | Some h \<Rightarrow> nm_utils_is_specific_hostname e h)"
    and "w1 = (if lookup_cancellable w
               then log_call Call_cancellable_cancel (w\<lparr>lookup_cancellable := False\<rparr>) else w)"
    and "b4 = (case best4 of None \<Rightarrow> get_best_ip4_device e True w1 | Some d \<Rightarrow> Some d)"
    and "b6 = (case best6 of None \<Rightarrow> get_best_ip6_device e True w1 | Some d \<Rightarrow> Some d)"
    and "(b4 = Some d \<and> nm_device_get_dhcp4_config e d = Some opts
            \<and> warn = LOGW_dhcp4_hostname_invalid v)
         \<or> (b4 = None \<and> b6 = Some d \<and> nm_device_get_dhcp6_config e d = Some opts
            \<and> warn = LOGW_dhcp6_hostname_invalid v)"
    and "opts ''host_name'' = Some v"
  shows "update_system_hostname e best4 best6 w =
     (if v = [] then startup_or_reverse_lookup e b4 b6 w1
      else if \<forall>c \<in> set v. g_ascii_isspace c
           then startup_or_reverse_lookup e b4 b6 (log_call (Call_log_warning warn) w1)
      else set_hostname e (Some (dropWhile g_ascii_isspace v)) w1)"
proof -
  have step: "dhcp_hostname_step e b4 b6 =
     (if v = [] then DHCP_NOTHING
      else if \<forall>c \<in> set v. g_ascii_isspace c then DHCP_INVALID warn
      else DHCP_HOSTNAME (dropWhile g_ascii_isspace v))"
    using assms(5,6) by (auto simp: dhcp_hostname_step_def skip_leading_spaces_eq)
  have some: "\<not> (b4 = None \<and> b6 = None)" using assms(5) by auto
  have "update_system_hostname e best4 best6 w =
      (case dhcp_hostname_step e b4 b6 of
         DHCP_HOSTNAME p \<Rightarrow> set_hostname e (Some p) w1
       | DHCP_INVALID warn \<Rightarrow> startup_or_reverse_lookup e b4 b6 (log_call (Call_log_warning warn) w1)
       | DHCP_NOTHING \<Rightarrow> startup_or_reverse_lookup e b4 b6 w1)"
    unfolding update_system_hostname_def Let_def assms(2)[symmetric] assms(3)[symmetric] assms(4)[symmetric]
    using assms(1) some by (simp only: if_False)
  then show ?thesis by (simp add: step)
qed


theorem dhcp_host_name_step_witness:
  "dhcp_options_with_host_name ''  '' ''host_name'' = Some ''  ''
   \<and> nm_device_get_dhcp4_config (env_dhcp4 ''  '') 1 = Some (dhcp_options_with_host_name ''  '')
   \<and> update_system_hostname (env_dhcp4 ''  '') (Some 1) None world0
       = world0\<lparr>calls := [Call_log_warning (LOGW_dhcp4_hostname_invalid ''  ''),
                           Call_settings_set_transient_hostname ''localhost.localdomain'']\<rparr>"
proof -
  have h1: "\<not> (case nm_manager_hostname (env_dhcp4 ''  '') of
                None \<Rightarrow> False
              | Some h \<Rightarrow> nm_utils_is_specific_hostname (env_dhcp4 ''  '') h)"
    by (simp add: env_dhcp4_def env0_def)
  have h2: "world0 = (if lookup_cancellable world0
      then log_call Call_cancellable_cancel (world0\<lparr>lookup_cancellable := False\<rparr>) else world0)"
    by (simp add: world0_def)
  have h3: "Some 1 = (case Some 1 of None \<Rightarrow> get_best_ip4_device (env_dhcp4 ''  '') True world0
      | Some d \<Rightarrow> Some d)"
    by simp
  have h4: "None = (case None of None \<Rightarrow> get_best_ip6_device (env_dhcp4 ''  '') True world0
      | Some d \<Rightarrow> Some d)"
    by (simp add: get_best_ip6_device_def env_dhcp4_def env0_def)
  have h5: "(Some 1 = Some 1
        \<and> nm_device_get_dhcp4_config (env_dhcp4 ''  '') 1 = Some (dhcp_options_with_host_name ''  '')
        \<and> LOGW_dhcp4_hostname_invalid ''  '' = LOGW_dhcp4_hostname_invalid ''  '')
      \<or> (Some 1 = None \<and> None = Some 1
        \<and> nm_device_get_dhcp6_config (env_dhcp4 ''  '') 1 = Some (dhcp_options_with_host_name ''  '')
        \<and> LOGW_dhcp4_hostname_invalid ''  '' = LOGW_dhcp6_hostname_invalid ''  '')"
    by (simp add: env_dhcp4_def env0_def)
  have h6: "dhcp_options_with_host_name ''  '' ''host_name'' = Some ''  ''"
    by (simp add: dhcp_options_with_host_name_def)
  have "update_system_hostname (env_dhcp4 ''  '') (Some 1) None world0 =
      startup_or_reverse_lookup (env_dhcp4 ''  '') (Some 1) None
        (log_call (Call_log_warning (LOGW_dhcp4_hostname_invalid ''  '')) world0)"
    using dhcp_host_name_step [OF h1 h2 h3 h4 h5 h6] by (simp add: g_ascii_isspace_def)
  then show ?thesis
    by (simp add: h6 env_dhcp4_def env0_def world0_def startup_or_reverse_lookup_def first_address_def
        set_hostname_def kernel_hostname_for_def FALLBACK_HOSTNAME4_def log_call_def Let_def)
qed

subsection \<open>Retry ledger: a failed device\<close>

lemma sint_sub_no_overflow:
  fixes a b :: "32 word"
  assumes "- (2 ^ 31) \<le> sint a - sint b" "sint a - sint b < 2 ^ 31"
  shows "sint (a - b) = sint a - sint b"
proof -
  have "sint (a - b) = signed_take_bit 31 (sint a - sint b)"
    by (simp add: sint_word_ariths)
  also have "\<dots> = sint a - sint b"
    using assms by (intro signed_take_bit_int_eq_self) auto
  finally show ?thesis .
qed

lemma uint_of_nonneg_sint:
  fixes d :: "32 word"
  assumes "0 \<le> sint d"
  shows "uint d = sint d"
proof -
  have "uint d = take_bit 32 (sint d)" by (simp add: uint_sint)
  also have "\<dots> = sint d"
    using assms sint_less [of d] by (simp add: take_bit_int_eq_self)
  finally show ?thesis .
qed

lemma timer_interval_max:
  fixes retry_time now :: gint32
  assumes "- (2 ^ 31) \<le> sint retry_time - sint now" "sint retry_time - sint now < 2 ^ 31"
  shows "uint (if retry_time - now <s 0 then 0 else retry_time - now)
           = max 0 (sint retry_time - sint now)"
proof (cases "retry_time - now <s 0")
  case True
  then have "sint retry_time - sint now < 0"
    using sint_sub_no_overflow [OF assms] by (simp add: word_sless_alt)
  then show ?thesis using True by simp
next
  case False
  then have nn: "0 \<le> sint (retry_time - now)" by (simp add: word_sless_alt)
  then have "uint (retry_time - now) = sint retry_time - sint now"
    using uint_of_nonneg_sint [OF nn] sint_sub_no_overflow [OF assms] by simp
  then show ?thesis using False nn sint_sub_no_overflow [OF assms] by simp
qed

lemma device_failed_unfold:
  assumes "nm_device_get_settings_connection e device = Some c"
    and "device_state_value NM_DEVICE_STATE_PREPARE \<le> device_state_value old_state"
    and "device_state_value old_state \<le> device_state_value NM_DEVICE_STATE_ACTIVATED"
  shows "device_failed e device old_state reason w =
     (let tries = autoconnect_retries (connections w c);
          w1 = (if reason = NM_DEVICE_STATE_REASON_NO_SECRETS
                then nm_settings_connection_set_autoconnect_blocked_reason c
                       NM_DEVICE_STATE_REASON_NO_SECRETS w
                else if 0 < tries
                then nm_settings_connection_set_autoconnect_retries e c (tries - 1) w
                else w);
          w2 = (if autoconnect_retries (connections w1 c) = 0
                then (if reset_retries_id w1 = None
                      then (let retry_time = autoconnect_retry_time (connections w1 c);
                                w1' = (if retry_time \<noteq> 0 then w1
                                       else log_call (Call_log_warning G_WARN_IF_FAIL) w1);
                                d = retry_time - nm_utils_get_monotonic_timestamp_s e
                            in w1'\<lparr>reset_retries_id := Some (if d <s 0 then 0 else d)\<rparr>)
                      else w1)
                else w1)
      in nm_connection_clear_secrets c w2)"
  using assms unfolding device_failed_def by simp

text \<open>
  C4. A device enters FAILED from an old state between PREPARE and ACTIVATED and has a
  settings configuration. The handler returns. With reason NO_SECRETS the blocked reason
  becomes NO_SECRETS and the retry counter stays; with any other reason the counter is
  decremented when positive and the blocked reason stays. When the counter is zero
  afterwards and no reset timer is scheduled, the timer is armed, and its interval is
  \<open>max 0 (deadline - now)\<close> whenever that subtraction of two \<open>gint32\<close> does not overflow;
  otherwise the timer is left as it was. The cached secrets are cleared in every case.
\<close>

theorem device_failed_retry_ledger:
  assumes conn: "nm_device_get_settings_connection e device = Some c"
    and lo: "device_state_value NM_DEVICE_STATE_PREPARE \<le> device_state_value old_state"
    and hi: "device_state_value old_state \<le> device_state_value NM_DEVICE_STATE_ACTIVATED"
    and run: "device_state_changed e device NM_DEVICE_STATE_FAILED old_state reason w = r"
  shows "\<exists>w'. r = Inr w'
    \<and> (reason = NM_DEVICE_STATE_REASON_NO_SECRETS \<longrightarrow>
         autoconnect_blocked_reason (connections w' c) = NM_DEVICE_STATE_REASON_NO_SECRETS
         \<and> autoconnect_retries (connections w' c) = autoconnect_retries (connections w c))
    \<and> (reason \<noteq> NM_DEVICE_STATE_REASON_NO_SECRETS \<longrightarrow>
         autoconnect_retries (connections w' c)
           = (if 0 < autoconnect_retries (connections w c)
              then autoconnect_retries (connections w c) - 1
              else autoconnect_retries (connections w c))
         \<and> autoconnect_blocked_reason (connections w' c)
             = autoconnect_blocked_reason (connections w c))
    \<and> (autoconnect_retries (connections w' c) = 0 \<and> reset_retries_id w = None \<longrightarrow>
         (\<exists>t. reset_retries_id w' = Some t
            \<and> (- (2 ^ 31) \<le> sint (autoconnect_retry_time (connections w' c))
                               - sint (nm_utils_get_monotonic_timestamp_s e)
               \<and> sint (autoconnect_retry_time (connections w' c))
                   - sint (nm_utils_get_monotonic_timestamp_s e) < 2 ^ 31
               \<longrightarrow> uint t = max 0 (sint (autoconnect_retry_time (connections w' c))
                                    - sint (nm_utils_get_monotonic_timestamp_s e)))))
    \<and> (autoconnect_retries (connections w' c) \<noteq> 0 \<or> reset_retries_id w \<noteq> None \<longrightarrow>
         reset_retries_id w' = reset_retries_id w)
    \<and> sc_secrets_cached (connections w' c) = False"
proof -
  define tries where "tries = autoconnect_retries (connections w c)"
  define now where "now = nm_utils_get_monotonic_timestamp_s e"
  define w1 where "w1 = (if reason = NM_DEVICE_STATE_REASON_NO_SECRETS
                then nm_settings_connection_set_autoconnect_blocked_reason c
                       NM_DEVICE_STATE_REASON_NO_SECRETS w
                else if 0 < tries
                then nm_settings_connection_set_autoconnect_retries e c (tries - 1) w
                else w)"
  define rt where "rt = autoconnect_retry_time (connections w1 c)"
  define w2 where "w2 = (if autoconnect_retries (connections w1 c) = 0
                then (if reset_retries_id w1 = None
                      then (if rt \<noteq> 0 then w1 else log_call (Call_log_warning G_WARN_IF_FAIL) w1)
                             \<lparr>reset_retries_id := Some (if rt - now <s 0 then 0 else rt - now)\<rparr>
                      else w1)
                else w1)"
  define w3 where "w3 = nm_connection_clear_secrets c w2"
  define w' where "w' = check_activating_devices e w3"
  have df: "device_failed e device old_state reason w = w3"
    unfolding device_failed_unfold [OF conn lo hi] w3_def w2_def rt_def w1_def tries_def now_def
    by (simp add: Let_def)
  have r: "r = Inr w'" using run by (simp add: device_state_changed_def w'_def df)
  have w1_retries: "autoconnect_retries (connections w1 c)
      = (if reason \<noteq> NM_DEVICE_STATE_REASON_NO_SECRETS \<and> 0 < tries then tries - 1 else tries)"
    by (simp add: w1_def tries_def nm_settings_connection_set_autoconnect_blocked_reason_def
          nm_settings_connection_set_autoconnect_retries_def)
  have w1_blocked: "autoconnect_blocked_reason (connections w1 c)
      = (if reason = NM_DEVICE_STATE_REASON_NO_SECRETS then NM_DEVICE_STATE_REASON_NO_SECRETS
         else autoconnect_blocked_reason (connections w c))"
    by (simp add: w1_def nm_settings_connection_set_autoconnect_blocked_reason_def
          nm_settings_connection_set_autoconnect_retries_def)
  have w1_timer: "reset_retries_id w1 = reset_retries_id w"
    by (simp add: w1_def nm_settings_connection_set_autoconnect_blocked_reason_def
          nm_settings_connection_set_autoconnect_retries_def)
  have w2_conns: "connections w2 = connections w1"
    by (simp add: w2_def log_call_def)
  have w2_timer: "reset_retries_id w2
      = (if autoconnect_retries (connections w1 c) = 0 \<and> reset_retries_id w = None
         then Some (if rt - now <s 0 then 0 else rt - now) else reset_retries_id w)"
    by (simp add: w2_def w1_timer log_call_def)
  have w3_cell: "connections w3 c = (connections w1 c)\<lparr>sc_secrets_cached := False\<rparr>"
    by (simp add: w3_def nm_connection_clear_secrets_def w2_conns)
  have w3_timer: "reset_retries_id w3 = reset_retries_id w2"
    by (simp add: w3_def nm_connection_clear_secrets_def)
  have w'_conns: "connections w' = connections w3" and w'_timer: "reset_retries_id w' = reset_retries_id w3"
    by (simp_all add: w'_def check_activating_devices_def notify_def log_call_def Let_def)
  have cell: "connections w' c = (connections w1 c)\<lparr>sc_secrets_cached := False\<rparr>"
    by (simp add: w'_conns w3_cell)
  have retries': "autoconnect_retries (connections w' c) = autoconnect_retries (connections w1 c)"
    and rt': "autoconnect_retry_time (connections w' c) = rt"
    and blocked': "autoconnect_blocked_reason (connections w' c) = autoconnect_blocked_reason (connections w1 c)"
    and secrets': "sc_secrets_cached (connections w' c) = False"
    by (simp_all add: cell rt_def)
  have timer': "reset_retries_id w'
      = (if autoconnect_retries (connections w' c) = 0 \<and> reset_retries_id w = None
         then Some (if rt - now <s 0 then 0 else rt - now) else reset_retries_id w)"
    by (simp add: w'_timer w3_timer w2_timer retries')
  have a: "reason = NM_DEVICE_STATE_REASON_NO_SECRETS \<longrightarrow>
         autoconnect_blocked_reason (connections w' c) = NM_DEVICE_STATE_REASON_NO_SECRETS
         \<and> autoconnect_retries (connections w' c) = autoconnect_retries (connections w c)"
    by (simp add: retries' blocked' w1_retries w1_blocked tries_def)
  have b: "reason \<noteq> NM_DEVICE_STATE_REASON_NO_SECRETS \<longrightarrow>
         autoconnect_retries (connections w' c)
           = (if 0 < autoconnect_retries (connections w c)
              then autoconnect_retries (connections w c) - 1
              else autoconnect_retries (connections w c))
         \<and> autoconnect_blocked_reason (connections w' c)
             = autoconnect_blocked_reason (connections w c)"
    by (simp add: retries' blocked' w1_retries w1_blocked tries_def)
  have c: "autoconnect_retries (connections w' c) = 0 \<and> reset_retries_id w = None \<longrightarrow>
         (\<exists>t. reset_retries_id w' = Some t
            \<and> (- (2 ^ 31) \<le> sint (autoconnect_retry_time (connections w' c))
                               - sint (nm_utils_get_monotonic_timestamp_s e)
               \<and> sint (autoconnect_retry_time (connections w' c))
                   - sint (nm_utils_get_monotonic_timestamp_s e) < 2 ^ 31
               \<longrightarrow> uint t = max 0 (sint (autoconnect_retry_time (connections w' c))
                                    - sint (nm_utils_get_monotonic_timestamp_s e))))"
  proof (intro impI)
    assume h: "autoconnect_retries (connections w' c) = 0 \<and> reset_retries_id w = None"
    have t: "reset_retries_id w' = Some (if rt - now <s 0 then 0 else rt - now)"
      using h by (simp add: timer')
    have "- (2 ^ 31) \<le> sint rt - sint now \<and> sint rt - sint now < 2 ^ 31
        \<longrightarrow> uint (if rt - now <s 0 then 0 else rt - now) = max 0 (sint rt - sint now)"
      using timer_interval_max [of rt now] by blast
    then show "\<exists>t. reset_retries_id w' = Some t
            \<and> (- (2 ^ 31) \<le> sint (autoconnect_retry_time (connections w' c))
                               - sint (nm_utils_get_monotonic_timestamp_s e)
               \<and> sint (autoconnect_retry_time (connections w' c))
                   - sint (nm_utils_get_monotonic_timestamp_s e) < 2 ^ 31
               \<longrightarrow> uint t = max 0 (sint (autoconnect_retry_time (connections w' c))
                                    - sint (nm_utils_get_monotonic_timestamp_s e)))"
      using t unfolding rt' now_def [symmetric] by blast
  qed
  have d: "autoconnect_retries (connections w' c) \<noteq> 0 \<or> reset_retries_id w \<noteq> None \<longrightarrow>
         reset_retries_id w' = reset_retries_id w"
    by (auto simp: timer')
  show ?thesis using r a b c d secrets' by blast
qed


theorem device_failed_retry_ledger_witness:
  "nm_device_get_settings_connection env_failed 1 = Some 2
   \<and> autoconnect_retries (connections world_last_try 2) = 1
   \<and> (case device_state_changed env_failed 1 NM_DEVICE_STATE_FAILED NM_DEVICE_STATE_CONFIG
              (NM_DEVICE_STATE_REASON_OTHER 0) world_last_try of
         Inl a \<Rightarrow> False
       | Inr w' \<Rightarrow> autoconnect_retries (connections w' 2) = 0
                  \<and> autoconnect_retry_time (connections w' 2) = 1300
                  \<and> reset_retries_id w' = Some 300
                  \<and> \<not> sc_secrets_cached (connections w' 2))"
proof -
  have h1: "nm_device_get_settings_connection env_failed 1 = Some 2"
    by (simp add: env_failed_def)
  have h2: "device_state_value NM_DEVICE_STATE_PREPARE \<le> device_state_value NM_DEVICE_STATE_CONFIG"
    by simp
  have h3: "device_state_value NM_DEVICE_STATE_CONFIG \<le> device_state_value NM_DEVICE_STATE_ACTIVATED"
    by simp
  note fact = device_failed_retry_ledger [OF h1 h2 h3 refl,
      of "NM_DEVICE_STATE_REASON_OTHER 0" world_last_try]
  show ?thesis
    using fact
    by (simp add: env_failed_def env0_def world_last_try_def world0_def device_state_changed_def
        device_failed_def check_activating_devices_def get_best_ip4_device_def
        get_best_ip6_device_def nm_settings_connection_set_autoconnect_retries_def
        nm_connection_clear_secrets_def Let_def word_sless_alt)
qed

subsection \<open>Retry ledger: the reset timer\<close>

lemma reset_retries_cell:
  "connections (nm_settings_connection_reset_autoconnect_retries e c w) x
     = (if x = c
        then (connections w c)\<lparr>autoconnect_retries := autoconnect_retries_default e,
               autoconnect_retry_time := autoconnect_retry_time_policy e
                  (autoconnect_retries_default e) (autoconnect_retry_time (connections w c))\<rparr>
        else connections w x)"
  by (simp add: nm_settings_connection_reset_autoconnect_retries_def
        nm_settings_connection_set_autoconnect_retries_def)

lemma reset_retries_frame:
  "(nm_settings_connection_reset_autoconnect_retries e c w)\<lparr>connections := k\<rparr>
     = w\<lparr>connections := k\<rparr>"
  by (simp add: nm_settings_connection_reset_autoconnect_retries_def
        nm_settings_connection_set_autoconnect_retries_def)

lemma reset_loop_frame:
  "(fst (reset_connections_retries_loop e now L (w, m, ch)))\<lparr>connections := k\<rparr>
     = w\<lparr>connections := k\<rparr>"
  by (induction L arbitrary: w m ch) (simp_all add: Let_def reset_retries_frame)

lemma reset_loop_cells:
  "distinct L \<Longrightarrow>
   connections (fst (reset_connections_retries_loop e now L (w, m, ch))) x
     = (if x \<in> set L \<and> retry_deadline_passed now (connections w x)
        then (connections w x)\<lparr>autoconnect_retries := autoconnect_retries_default e,
               autoconnect_retry_time := autoconnect_retry_time_policy e
                  (autoconnect_retries_default e) (autoconnect_retry_time (connections w x))\<rparr>
        else connections w x)"
proof (induction L arbitrary: w m ch x)
  case Nil
  then show ?case by simp
next
  case (Cons c rest)
  then have nin: "c \<notin> set rest" and d: "distinct rest" by simp_all
  show ?case
    using nin by (auto simp: Let_def Cons.IH [OF d] reset_retries_cell retry_deadline_passed_def)
qed

lemma reset_loop_changed:
  "distinct L \<Longrightarrow>
   snd (snd (reset_connections_retries_loop e now L (w, m, ch)))
     = (ch \<or> (\<exists>c \<in> set L. retry_deadline_passed now (connections w c)))"
proof (induction L arbitrary: w m ch)
  case Nil
  then show ?case by simp
next
  case (Cons c rest)
  then have nin: "c \<notin> set rest" and d: "distinct rest" by simp_all
  have same: "\<And>x. x \<in> set rest \<Longrightarrow>
      connections (nm_settings_connection_reset_autoconnect_retries e c w) x = connections w x"
    using nin by (auto simp: reset_retries_cell)
  show ?case
    using same by (auto simp: Let_def Cons.IH [OF d] retry_deadline_passed_def)
qed

lemma reset_loop_min_stamp:
  "distinct L \<Longrightarrow>
   m' = fst (snd (reset_connections_retries_loop e now L (w, m, ch))) \<Longrightarrow>
   (m' = m \<and> (\<forall>c \<in> set L. retry_deadline_pending now (connections w c) \<longrightarrow>
                 m \<noteq> 0 \<and> m \<le>s autoconnect_retry_time (connections w c)))
   \<or> ((\<exists>c \<in> set L. retry_deadline_pending now (connections w c)
                    \<and> m' = autoconnect_retry_time (connections w c))
      \<and> (\<forall>c \<in> set L. retry_deadline_pending now (connections w c) \<longrightarrow>
                 m' \<le>s autoconnect_retry_time (connections w c))
      \<and> (m = 0 \<or> m' <s m))"
proof (induction L arbitrary: w m ch m')
  case Nil
  then show ?case by simp
next
  case (Cons c rest)
  then have nin: "c \<notin> set rest" and d: "distinct rest" by simp_all
  define s where "s = autoconnect_retry_time (connections w c)"
  have same: "\<And>x. x \<in> set rest \<Longrightarrow>
      connections (nm_settings_connection_reset_autoconnect_retries e c w) x = connections w x"
    using nin by (auto simp: reset_retries_cell)
  consider (zero) "s = 0" | (passed) "s \<noteq> 0" "s \<le>s now"
    | (lower) "s \<noteq> 0" "\<not> s \<le>s now" "m = 0 \<or> s <s m"
    | (keep) "s \<noteq> 0" "\<not> s \<le>s now" "\<not> (m = 0 \<or> s <s m)"
    by blast
  then show ?case
  proof cases
    case zero
    then have "m' = fst (snd (reset_connections_retries_loop e now rest (w, m, ch)))"
      using Cons.prems(2) by (simp add: Let_def s_def)
    from Cons.IH [OF d this] show ?thesis
      using zero by (auto simp: retry_deadline_pending_def s_def)
  next
    case passed
    then have "m' = fst (snd (reset_connections_retries_loop e now rest
        (nm_settings_connection_reset_autoconnect_retries e c w, m, True)))"
      using Cons.prems(2) by (simp add: Let_def s_def)
    from Cons.IH [OF d this] show ?thesis
      using passed same by (auto simp: retry_deadline_pending_def s_def)
  next
    case lower
    then have "m' = fst (snd (reset_connections_retries_loop e now rest (w, s, ch)))"
      using Cons.prems(2) by (auto simp: Let_def s_def)
    from Cons.IH [OF d this] show ?thesis
      using lower
      by (auto simp: retry_deadline_pending_def s_def
          dest: signed.less_trans signed.less_imp_le signed.order_trans)
  next
    case keep
    then have "m' = fst (snd (reset_connections_retries_loop e now rest (w, m, ch)))"
      using Cons.prems(2) by (auto simp: Let_def s_def)
    from Cons.IH [OF d this] show ?thesis
      using keep
      by (auto simp: retry_deadline_pending_def s_def signed.not_less
          dest: signed.less_trans signed.less_imp_le signed.order_trans)
  qed
qed


text \<open>
  C5, as the spec states it, fails: the timer handler resets the retry counter of a
  configuration whose deadline has passed and leaves its blocked reason alone. A
  configuration blocked by the user is still blocked after the timer fired.
\<close>

theorem reset_connections_retries_blocked_counterexample:
  "2 \<in> set (nm_settings_get_connections_sorted env_ledger)
   \<and> retry_deadline_passed (nm_utils_get_monotonic_timestamp_s env_ledger)
        (connections world_ledger 2)
   \<and> autoconnect_retries (connections (reset_connections_retries env_ledger world_ledger) 2) = 4
   \<and> autoconnect_blocked_reason (connections (reset_connections_retries env_ledger world_ledger) 2)
        = NM_DEVICE_STATE_REASON_USER_REQUESTED"
  by (simp add: env_ledger_def env0_def world_ledger_def world0_def reset_connections_retries_def
        retry_deadline_passed_def nm_settings_connection_reset_autoconnect_retries_def
        nm_settings_connection_set_autoconnect_retries_def schedule_activate_all_def
        log_call_def Let_def)

text \<open>
  C5, amended. Let the settings store list each configuration once. When the reset timer
  fires, every listed configuration whose deadline is non-zero and at or before \<open>now\<close> has
  its retry counter reset (the deadline becomes what the settings object supplies; the
  blocked reason and all other cells stay), and every other configuration is untouched.
  The timer is re-armed exactly when a listed configuration has a non-zero deadline after
  \<open>now\<close>, with the least such deadline minus \<open>now\<close> as interval. A full re-scan is
  requested exactly when some configuration was reset. Nothing else changes.
\<close>

theorem reset_connections_retries_timer:
  assumes dist: "distinct (nm_settings_get_connections_sorted e)"
    and L: "L = nm_settings_get_connections_sorted e"
    and now: "now = nm_utils_get_monotonic_timestamp_s e"
    and run: "w' = reset_connections_retries e w"
  shows "(\<forall>c. connections w' c =
            (if c \<in> set L \<and> retry_deadline_passed now (connections w c)
             then (connections w c)\<lparr>autoconnect_retries := autoconnect_retries_default e,
                    autoconnect_retry_time := autoconnect_retry_time_policy e
                       (autoconnect_retries_default e) (autoconnect_retry_time (connections w c))\<rparr>
             else connections w c))
     \<and> (case reset_retries_id w' of
           None \<Rightarrow> \<forall>c \<in> set L. \<not> retry_deadline_pending now (connections w c)
         | Some t \<Rightarrow>
             \<exists>c \<in> set L. retry_deadline_pending now (connections w c)
                \<and> t = autoconnect_retry_time (connections w c) - now
                \<and> (\<forall>c' \<in> set L. retry_deadline_pending now (connections w c') \<longrightarrow>
                      autoconnect_retry_time (connections w c)
                        \<le>s autoconnect_retry_time (connections w c')))
     \<and> (if \<exists>c \<in> set L. retry_deadline_passed now (connections w c)
         then schedule_activate_all_id w'
              \<and> calls w' = calls w @ [Call_idle_add_schedule_activate_all]
         else schedule_activate_all_id w' = schedule_activate_all_id w \<and> calls w' = calls w)
     \<and> w' = w\<lparr>connections := connections w', reset_retries_id := reset_retries_id w',
               schedule_activate_all_id := schedule_activate_all_id w', calls := calls w'\<rparr>"
proof -
  define w0 where "w0 = w\<lparr>reset_retries_id := None\<rparr>"
  define res where "res = reset_connections_retries_loop e now L (w0, 0, False)"
  define w1 where "w1 = fst res"
  define m' where "m' = fst (snd res)"
  define ch where "ch = snd (snd res)"
  define w2 where "w2 = (if m' \<noteq> 0 then w1\<lparr>reset_retries_id := Some (m' - now)\<rparr> else w1)"
  have dL: "distinct L" using dist L by simp
  have w': "w' = (if ch then schedule_activate_all w2 else w2)"
    unfolding run reset_connections_retries_def w2_def w1_def m'_def ch_def res_def w0_def L now
    by (simp add: Let_def case_prod_beta)
  have frame1: "w1\<lparr>connections := k\<rparr> = w0\<lparr>connections := k\<rparr>" for k
    unfolding w1_def res_def by (rule reset_loop_frame)
  have w1_eq: "w1 = w0\<lparr>connections := connections w1\<rparr>"
    using frame1 [of "connections w1"] by simp
  have cells1: "connections w1 c =
            (if c \<in> set L \<and> retry_deadline_passed now (connections w c)
             then (connections w c)\<lparr>autoconnect_retries := autoconnect_retries_default e,
                    autoconnect_retry_time := autoconnect_retry_time_policy e
                       (autoconnect_retries_default e) (autoconnect_retry_time (connections w c))\<rparr>
             else connections w c)" for c
    unfolding w1_def res_def using reset_loop_cells [OF dL, of e now w0 0 False c] by (simp add: w0_def)
  have ch_eq: "ch = (\<exists>c \<in> set L. retry_deadline_passed now (connections w c))"
    unfolding ch_def res_def using reset_loop_changed [OF dL, of e now w0 0 False] by (simp add: w0_def)
  obtain k where w1k: "w1 = w0\<lparr>connections := k\<rparr>"
    using w1_eq by blast
  have conns': "connections w' = connections w1"
    by (simp add: w' w2_def schedule_activate_all_def log_call_def)
  have timer': "reset_retries_id w' = (if m' \<noteq> 0 then Some (m' - now) else None)"
    by (simp add: w' w2_def w1k w0_def schedule_activate_all_def log_call_def)
  have sched': "schedule_activate_all_id w' = (if ch then True else schedule_activate_all_id w)"
    by (simp add: w' w2_def w1k w0_def schedule_activate_all_def log_call_def)
  have calls': "calls w' = (if ch then calls w @ [Call_idle_add_schedule_activate_all] else calls w)"
    by (simp add: w' w2_def w1k w0_def schedule_activate_all_def log_call_def)
  have frame': "w' = w\<lparr>connections := connections w', reset_retries_id := reset_retries_id w',
               schedule_activate_all_id := schedule_activate_all_id w', calls := calls w'\<rparr>"
    by (simp add: w' w2_def w1k w0_def schedule_activate_all_def log_call_def)
  have A: "\<forall>c. connections w' c =
            (if c \<in> set L \<and> retry_deadline_passed now (connections w c)
             then (connections w c)\<lparr>autoconnect_retries := autoconnect_retries_default e,
                    autoconnect_retry_time := autoconnect_retry_time_policy e
                       (autoconnect_retries_default e) (autoconnect_retry_time (connections w c))\<rparr>
             else connections w c)"
    using cells1 by (simp add: conns')
  have minspec: "(m' = 0 \<and> (\<forall>c \<in> set L. retry_deadline_pending now (connections w c) \<longrightarrow>
                 (0::gint32) \<noteq> 0 \<and> 0 \<le>s autoconnect_retry_time (connections w c)))
   \<or> ((\<exists>c \<in> set L. retry_deadline_pending now (connections w c)
                    \<and> m' = autoconnect_retry_time (connections w c))
      \<and> (\<forall>c \<in> set L. retry_deadline_pending now (connections w c) \<longrightarrow>
                 m' \<le>s autoconnect_retry_time (connections w c))
      \<and> ((0::gint32) = 0 \<or> m' <s 0))"
    using reset_loop_min_stamp [OF dL, of m' e now w0 0 False] by (simp add: m'_def res_def w0_def)
  have B: "(case reset_retries_id w' of
           None \<Rightarrow> \<forall>c \<in> set L. \<not> retry_deadline_pending now (connections w c)
         | Some t \<Rightarrow>
             \<exists>c \<in> set L. retry_deadline_pending now (connections w c)
                \<and> t = autoconnect_retry_time (connections w c) - now
                \<and> (\<forall>c' \<in> set L. retry_deadline_pending now (connections w c') \<longrightarrow>
                      autoconnect_retry_time (connections w c)
                        \<le>s autoconnect_retry_time (connections w c')))"
  proof (cases "m' = 0")
    case True
    with minspec have "\<forall>c \<in> set L. \<not> retry_deadline_pending now (connections w c)"
      by (auto simp: retry_deadline_pending_def)
    then show ?thesis using True by (simp add: timer')
  next
    case False
    with minspec obtain c where c: "c \<in> set L" "retry_deadline_pending now (connections w c)"
        "m' = autoconnect_retry_time (connections w c)"
      and least: "\<forall>c \<in> set L. retry_deadline_pending now (connections w c) \<longrightarrow>
                 m' \<le>s autoconnect_retry_time (connections w c)"
      by blast
    show ?thesis using False c least by (auto simp: timer')
  qed
  have C: "(if \<exists>c \<in> set L. retry_deadline_passed now (connections w c)
         then schedule_activate_all_id w'
              \<and> calls w' = calls w @ [Call_idle_add_schedule_activate_all]
         else schedule_activate_all_id w' = schedule_activate_all_id w \<and> calls w' = calls w)"
    by (simp add: sched' calls' ch_eq)
  show ?thesis using A B C frame' by blast
qed


theorem reset_connections_retries_timer_witness:
  "distinct (nm_settings_get_connections_sorted env_ledger)
   \<and> autoconnect_retries (connections (reset_connections_retries env_ledger world_ledger) 2) = 4
   \<and> autoconnect_retries (connections (reset_connections_retries env_ledger world_ledger) 3) = 0
   \<and> reset_retries_id (reset_connections_retries env_ledger world_ledger) = Some 200
   \<and> calls (reset_connections_retries env_ledger world_ledger)
        = [Call_idle_add_schedule_activate_all]"
proof -
  have h1: "distinct (nm_settings_get_connections_sorted env_ledger)"
    by (simp add: env_ledger_def)
  note fact = reset_connections_retries_timer [OF h1 refl refl refl, of world_ledger]
  show ?thesis
    using fact
    by (simp add: env_ledger_def env0_def world_ledger_def world0_def reset_connections_retries_def
        nm_settings_connection_reset_autoconnect_retries_def
        nm_settings_connection_set_autoconnect_retries_def schedule_activate_all_def
        log_call_def Let_def)
qed

subsection \<open>Secondary connections\<close>

lemma secondaries_inner_absent:
  "active \<notin> set it \<Longrightarrow>
   process_secondaries_inner active connected it secs = SECONDARIES_REMAIN secs"
  by (induction it) auto

lemma secondaries_inner_failed:
  "process_secondaries_inner active False it secs =
     (if active \<in> set it then SECONDARIES_FAILED else SECONDARIES_REMAIN secs)"
  by (induction it) auto

lemma secondaries_inner_connected:
  "active \<notin> set p \<Longrightarrow>
   process_secondaries_inner active True it (p @ it) =
     (if active \<in> set it \<and> filter (\<lambda>x. x \<noteq> active) (p @ it) = []
      then SECONDARIES_ALL_ACTIVATED
      else SECONDARIES_REMAIN (p @ filter (\<lambda>x. x \<noteq> active) it))"
proof (induction it arbitrary: p)
  case Nil
  then show ?case by simp
next
  case (Cons x rest)
  show ?case
  proof (cases "x = active")
    case False
    have "process_secondaries_inner active True (x # rest) (p @ x # rest)
        = process_secondaries_inner active True rest ((p @ [x]) @ rest)"
      using False by simp
    also have "\<dots> = SECONDARIES_REMAIN ((p @ [x]) @ filter (\<lambda>x. x \<noteq> active) rest)"
      using Cons.IH [of "p @ [x]"] Cons.prems False by auto
    finally show ?thesis using False by simp
  next
    case True
    have rm: "remove1 x (p @ x # rest) = p @ rest"
      using Cons.prems True by (simp add: remove1_append)
    have fp: "filter (\<lambda>x. x \<noteq> active) p = p"
      using Cons.prems by (auto simp: filter_id_conv)
    show ?thesis
    proof (cases "p @ rest = []")
      case e: True
      then show ?thesis using True rm by simp
    next
      case ne: False
      have "process_secondaries_inner active True (x # rest) (p @ x # rest)
          = process_secondaries_inner active True rest (p @ rest)"
        using True rm ne by (simp add: Let_def)
      also have "\<dots> = (if active \<in> set rest \<and> filter (\<lambda>x. x \<noteq> active) (p @ rest) = []
            then SECONDARIES_ALL_ACTIVATED
            else SECONDARIES_REMAIN (p @ filter (\<lambda>x. x \<noteq> active) rest))"
        using Cons.IH [OF Cons.prems] .
      finally have step: "process_secondaries_inner active True (x # rest) (p @ x # rest)
          = (if active \<in> set rest \<and> filter (\<lambda>x. x \<noteq> active) (p @ rest) = []
            then SECONDARIES_ALL_ACTIVATED
            else SECONDARIES_REMAIN (p @ filter (\<lambda>x. x \<noteq> active) rest))" .
      have "filter (\<lambda>x. x \<noteq> active) (p @ rest) = [] \<Longrightarrow> active \<in> set rest"
      proof -
        assume f: "filter (\<lambda>x. x \<noteq> active) (p @ rest) = []"
        then have "p = []" using fp by simp
        then have "rest \<noteq> []" using ne by simp
        then obtain y where "y \<in> set rest" by (cases rest) auto
        then show "active \<in> set rest" using f by (auto simp: filter_empty_conv)
      qed
      then show ?thesis using step True by auto
    qed
  qed
qed

lemma secondaries_inner_connected_whole:
  "process_secondaries_inner active True secs secs =
     (if active \<in> set secs \<and> filter (\<lambda>x. x \<noteq> active) secs = []
      then SECONDARIES_ALL_ACTIVATED
      else SECONDARIES_REMAIN (filter (\<lambda>x. x \<noteq> active) secs))"
  using secondaries_inner_connected [of active "[]" secs] by simp

lemma secondaries_loop_absent:
  "(\<And>q. q \<in> set rs \<Longrightarrow> active \<notin> set (psd_secondaries q)) \<Longrightarrow>
   process_secondaries_loop active connected rs w = (rs, w)"
  by (induction rs arbitrary: w) (simp_all add: secondaries_inner_absent)

lemma secondaries_loop_append:
  "(\<And>q. q \<in> set pre \<Longrightarrow> active \<notin> set (psd_secondaries q)) \<Longrightarrow>
   process_secondaries_loop active connected (pre @ rs) w =
     (pre @ fst (process_secondaries_loop active connected rs w),
      snd (process_secondaries_loop active connected rs w))"
  by (induction pre arbitrary: w) (simp_all add: secondaries_inner_absent case_prod_beta)


lemma process_secondaries_tracked:
  assumes pend: "pending_secondaries w = pre @ r # post"
    and others: "\<forall>q \<in> set pre \<union> set post. active \<notin> set (psd_secondaries q)"
    and tracked: "active \<in> set (psd_secondaries r)"
    and rest: "rest = filter (\<lambda>x. x \<noteq> active) (psd_secondaries r)"
    and dev: "dev = psd_device r"
  shows "process_secondaries active True w =
           (if rest \<noteq> [] then w\<lparr>pending_secondaries := pre @ r\<lparr>psd_secondaries := rest\<rparr> # post\<rparr>
            else if device_state w dev = NM_DEVICE_STATE_SECONDARIES
            then w\<lparr>device_state := (device_state w)(dev := NM_DEVICE_STATE_ACTIVATED),
                   calls := calls w @ [Call_device_state_changed dev NM_DEVICE_STATE_ACTIVATED
                                         NM_DEVICE_STATE_REASON_NONE],
                   pending_secondaries := pre @ post\<rparr>
            else w\<lparr>pending_secondaries := pre @ post\<rparr>)
       \<and> process_secondaries active False w =
           (if device_state w dev = NM_DEVICE_STATE_SECONDARIES
               \<or> device_state w dev = NM_DEVICE_STATE_ACTIVATED
            then w\<lparr>device_state := (device_state w)(dev := NM_DEVICE_STATE_FAILED),
                   calls := calls w @ [Call_device_state_changed dev NM_DEVICE_STATE_FAILED
                                         NM_DEVICE_STATE_REASON_SECONDARY_CONNECTION_FAILED],
                   pending_secondaries := pre @ post\<rparr>
            else w\<lparr>pending_secondaries := pre @ post\<rparr>)"
proof -
  have pre_abs: "\<And>q. q \<in> set pre \<Longrightarrow> active \<notin> set (psd_secondaries q)"
    and post_abs: "\<And>q. q \<in> set post \<Longrightarrow> active \<notin> set (psd_secondaries q)"
    using others by auto
  have post_loop: "process_secondaries_loop active connected post w0 = (post, w0)" for connected w0
    by (rule secondaries_loop_absent) (rule post_abs)
  have inner_t: "process_secondaries_inner active True (psd_secondaries r) (psd_secondaries r)
      = (if rest = [] then SECONDARIES_ALL_ACTIVATED else SECONDARIES_REMAIN rest)"
    using tracked by (simp add: secondaries_inner_connected_whole rest)
  have inner_f: "process_secondaries_inner active False (psd_secondaries r) (psd_secondaries r)
      = SECONDARIES_FAILED"
    using tracked by (simp add: secondaries_inner_failed)
  have conn: "process_secondaries active True w =
           (if rest \<noteq> [] then w\<lparr>pending_secondaries := pre @ r\<lparr>psd_secondaries := rest\<rparr> # post\<rparr>
            else if device_state w dev = NM_DEVICE_STATE_SECONDARIES
            then w\<lparr>device_state := (device_state w)(dev := NM_DEVICE_STATE_ACTIVATED),
                   calls := calls w @ [Call_device_state_changed dev NM_DEVICE_STATE_ACTIVATED
                                         NM_DEVICE_STATE_REASON_NONE],
                   pending_secondaries := pre @ post\<rparr>
            else w\<lparr>pending_secondaries := pre @ post\<rparr>)"
    unfolding process_secondaries_def pend
    by (simp add: secondaries_loop_append [OF pre_abs] inner_t post_loop dev Let_def
          nm_device_state_changed_def log_call_def)
  have fail: "process_secondaries active False w =
           (if device_state w dev = NM_DEVICE_STATE_SECONDARIES
               \<or> device_state w dev = NM_DEVICE_STATE_ACTIVATED
            then w\<lparr>device_state := (device_state w)(dev := NM_DEVICE_STATE_FAILED),
                   calls := calls w @ [Call_device_state_changed dev NM_DEVICE_STATE_FAILED
                                         NM_DEVICE_STATE_REASON_SECONDARY_CONNECTION_FAILED],
                   pending_secondaries := pre @ post\<rparr>
            else w\<lparr>pending_secondaries := pre @ post\<rparr>)"
    unfolding process_secondaries_def pend
    by (simp add: secondaries_loop_append [OF pre_abs] inner_f post_loop dev Let_def
          nm_device_state_changed_def log_call_def)
  show ?thesis using conn fail by blast
qed

lemma process_secondaries_untracked:
  "\<forall>q \<in> set (pending_secondaries w). active \<notin> set (psd_secondaries q) \<Longrightarrow>
   process_secondaries active connected w = w"
  by (simp add: process_secondaries_def secondaries_loop_absent)


text \<open>
  C6. Let the session be in the wait list of exactly one record \<open>r\<close>. When it reaches
  ACTIVATED it is taken out of that list; if the list is then empty the record is removed
  and, if the device is still in SECONDARIES, the device goes to ACTIVATED with reason
  NONE. When it reaches DEACTIVATED the whole record is removed and the device goes to
  FAILED with reason SECONDARY_CONNECTION_FAILED if it is still in SECONDARIES or
  ACTIVATED. Nothing else changes. A session that is in no wait list changes nothing.
\<close>

theorem process_secondaries_wait_lists:
  "(pending_secondaries w = pre @ r # post
      \<and> (\<forall>q \<in> set pre \<union> set post. active \<notin> set (psd_secondaries q))
      \<and> active \<in> set (psd_secondaries r)
    \<longrightarrow>
      (let rest = filter (\<lambda>x. x \<noteq> active) (psd_secondaries r); dev = psd_device r in
       process_secondaries active True w =
           (if rest \<noteq> [] then w\<lparr>pending_secondaries := pre @ r\<lparr>psd_secondaries := rest\<rparr> # post\<rparr>
            else if device_state w dev = NM_DEVICE_STATE_SECONDARIES
            then w\<lparr>device_state := (device_state w)(dev := NM_DEVICE_STATE_ACTIVATED),
                   calls := calls w @ [Call_device_state_changed dev NM_DEVICE_STATE_ACTIVATED
                                         NM_DEVICE_STATE_REASON_NONE],
                   pending_secondaries := pre @ post\<rparr>
            else w\<lparr>pending_secondaries := pre @ post\<rparr>)
       \<and> process_secondaries active False w =
           (if device_state w dev = NM_DEVICE_STATE_SECONDARIES
               \<or> device_state w dev = NM_DEVICE_STATE_ACTIVATED
            then w\<lparr>device_state := (device_state w)(dev := NM_DEVICE_STATE_FAILED),
                   calls := calls w @ [Call_device_state_changed dev NM_DEVICE_STATE_FAILED
                                         NM_DEVICE_STATE_REASON_SECONDARY_CONNECTION_FAILED],
                   pending_secondaries := pre @ post\<rparr>
            else w\<lparr>pending_secondaries := pre @ post\<rparr>)))
   \<and> ((\<forall>q \<in> set (pending_secondaries w). active \<notin> set (psd_secondaries q))
        \<longrightarrow> process_secondaries active connected w = w)"
proof (intro conjI impI)
  assume h: "pending_secondaries w = pre @ r # post
      \<and> (\<forall>q \<in> set pre \<union> set post. active \<notin> set (psd_secondaries q))
      \<and> active \<in> set (psd_secondaries r)"
  then have h1: "pending_secondaries w = pre @ r # post"
    and h2: "\<forall>q \<in> set pre \<union> set post. active \<notin> set (psd_secondaries q)"
    and h3: "active \<in> set (psd_secondaries r)"
    by blast+
  show "let rest = filter (\<lambda>x. x \<noteq> active) (psd_secondaries r); dev = psd_device r in
       process_secondaries active True w =
           (if rest \<noteq> [] then w\<lparr>pending_secondaries := pre @ r\<lparr>psd_secondaries := rest\<rparr> # post\<rparr>
            else if device_state w dev = NM_DEVICE_STATE_SECONDARIES
            then w\<lparr>device_state := (device_state w)(dev := NM_DEVICE_STATE_ACTIVATED),
                   calls := calls w @ [Call_device_state_changed dev NM_DEVICE_STATE_ACTIVATED
                                         NM_DEVICE_STATE_REASON_NONE],
                   pending_secondaries := pre @ post\<rparr>
            else w\<lparr>pending_secondaries := pre @ post\<rparr>)
       \<and> process_secondaries active False w =
           (if device_state w dev = NM_DEVICE_STATE_SECONDARIES
               \<or> device_state w dev = NM_DEVICE_STATE_ACTIVATED
            then w\<lparr>device_state := (device_state w)(dev := NM_DEVICE_STATE_FAILED),
                   calls := calls w @ [Call_device_state_changed dev NM_DEVICE_STATE_FAILED
                                         NM_DEVICE_STATE_REASON_SECONDARY_CONNECTION_FAILED],
                   pending_secondaries := pre @ post\<rparr>
            else w\<lparr>pending_secondaries := pre @ post\<rparr>)"
    unfolding Let_def by (rule process_secondaries_tracked [OF h1 h2 h3 refl refl])
next
  assume "\<forall>q \<in> set (pending_secondaries w). active \<notin> set (psd_secondaries q)"
  then show "process_secondaries active connected w = w"
    by (rule process_secondaries_untracked)
qed

theorem process_secondaries_wait_lists_witness:
  "pending_secondaries world_waiting
      = [\<lparr>psd_device = 1, psd_secondaries = [5, 6]\<rparr>] @ \<lparr>psd_device = 2, psd_secondaries = [7]\<rparr> # []
   \<and> device_state world_waiting 2 = NM_DEVICE_STATE_SECONDARIES
   \<and> process_secondaries 7 True world_waiting =
       world_waiting\<lparr>device_state := (device_state world_waiting)(2 := NM_DEVICE_STATE_ACTIVATED),
         calls := [Call_device_state_changed 2 NM_DEVICE_STATE_ACTIVATED NM_DEVICE_STATE_REASON_NONE],
         pending_secondaries := [\<lparr>psd_device = 1, psd_secondaries = [5, 6]\<rparr>]\<rparr>
   \<and> process_secondaries 7 False world_waiting =
       world_waiting\<lparr>device_state := (device_state world_waiting)(2 := NM_DEVICE_STATE_FAILED),
         calls := [Call_device_state_changed 2 NM_DEVICE_STATE_FAILED
                     NM_DEVICE_STATE_REASON_SECONDARY_CONNECTION_FAILED],
         pending_secondaries := [\<lparr>psd_device = 1, psd_secondaries = [5, 6]\<rparr>]\<rparr>
   \<and> process_secondaries 8 True world_waiting = world_waiting"
  using process_secondaries_wait_lists [of world_waiting
      "[\<lparr>psd_device = 1, psd_secondaries = [5, 6]\<rparr>]" "\<lparr>psd_device = 2, psd_secondaries = [7]\<rparr>"
      "[]" 7 True]
    process_secondaries_wait_lists [of world_waiting
      "[\<lparr>psd_device = 1, psd_secondaries = [5, 6]\<rparr>]" "\<lparr>psd_device = 2, psd_secondaries = [7]\<rparr>"
      "[]" 8 True]
  by (simp add: world_waiting_def world0_def Let_def)

subsection \<open>A device enters SECONDARIES\<close>

lemma check_activating_devices_spec:
  "check_activating_devices e w =
     w\<lparr>activating_device4 := get_best_ip4_device e False w,
       activating_device6 := get_best_ip6_device e False w,
       calls := calls w
         @ (if get_best_ip4_device e False w \<noteq> activating_device4 w
            then [Call_notify PROP_ACTIVATING_IP4_DEVICE] else [])
         @ (if get_best_ip6_device e False w \<noteq> activating_device6 w
            then [Call_notify PROP_ACTIVATING_IP6_DEVICE] else [])\<rparr>"
  by (simp add: check_activating_devices_def Let_def notify_def log_call_def
        get_best_ip4_device_def get_best_ip6_device_def)

text \<open>
  C9, as the spec states it, fails: the handler reads the secondaries of the device's
  settings connection, never those of the applied connection. Here the applied connection
  of the device's session declares no secondary while the settings connection declares
  one: the routing and DNS update runs, the secondary is started and a wait record is
  created, and the device is not queued to ACTIVATED.
\<close>

theorem device_secondaries_applied_counterexample:
  "nm_device_get_act_request env_secondary 1 = Some 3
   \<and> map_option con_secondaries (ac_applied_connection (actives world_secondary 3)) = Some []
   \<and> (case device_state_changed env_secondary 1 NM_DEVICE_STATE_SECONDARIES
              NM_DEVICE_STATE_IP_CHECK NM_DEVICE_STATE_REASON_NONE world_secondary of
         Inl a \<Rightarrow> False
       | Inr w' \<Rightarrow>
           pending_secondaries w' = [\<lparr>psd_device = 1, psd_secondaries = [6]\<rparr>]
           \<and> calls w' = [Call_dns_begin_updates,
                          Call_settings_set_transient_hostname ''localhost.localdomain'',
                          Call_dns_end_updates,
                          Call_manager_activate_connection 4 (Some 1) NM_ACTIVATION_TYPE_FULL])"
  by (simp add: env_secondary_def env0_def world_secondary_def world0_def
        device_state_changed_def device_secondaries_def update_routing_and_dns_def
        update_ip4_dns_def update_ip6_dns_def update_ip4_routing_def update_ip6_routing_def
        update_system_hostname_def set_hostname_def kernel_hostname_for_def
        FALLBACK_HOSTNAME4_def get_best_ip4_device_def get_best_ip6_device_def
        activate_secondary_connections_def check_activating_devices_def notify_def
        log_call_def Let_def)

text \<open>
  C9, amended. When a device enters SECONDARIES and it has no settings connection, or its
  settings connection declares no secondary UUID, the handler queues the device to
  ACTIVATED with reason NONE and then only refreshes the activating-device slots (with
  their notifications): no wait record is created, and no call of the routing and DNS
  update (DNS manager, default slots, session flags, hostname) is made.
\<close>

theorem device_secondaries_none:
  assumes "nm_device_get_settings_connection e device = None
           \<or> (\<exists>c. nm_device_get_settings_connection e device = Some c
                  \<and> sc_secondaries (connections w c) = [])"
  shows "device_state_changed e device NM_DEVICE_STATE_SECONDARIES old_state reason w =
     Inr (w\<lparr>activating_device4 := get_best_ip4_device e False w,
            activating_device6 := get_best_ip6_device e False w,
            calls := calls w
              @ [Call_device_queue_state device NM_DEVICE_STATE_ACTIVATED NM_DEVICE_STATE_REASON_NONE]
              @ (if get_best_ip4_device e False w \<noteq> activating_device4 w
                 then [Call_notify PROP_ACTIVATING_IP4_DEVICE] else [])
              @ (if get_best_ip6_device e False w \<noteq> activating_device6 w
                 then [Call_notify PROP_ACTIVATING_IP6_DEVICE] else [])\<rparr>)"
proof -
  have "device_secondaries e device w =
      Inr (nm_device_queue_state device NM_DEVICE_STATE_ACTIVATED NM_DEVICE_STATE_REASON_NONE w)"
    using assms by (auto simp: device_secondaries_def)
  then show ?thesis
    by (simp add: device_state_changed_def check_activating_devices_spec
          nm_device_queue_state_def log_call_def get_best_ip4_device_def get_best_ip6_device_def)
qed


theorem device_secondaries_none_witness:
  "nm_device_get_settings_connection env_secondary 1 = Some 2
   \<and> sc_secondaries (connections world0 2) = []
   \<and> device_state_changed env_secondary 1 NM_DEVICE_STATE_SECONDARIES
        NM_DEVICE_STATE_IP_CHECK NM_DEVICE_STATE_REASON_NONE world0
       = Inr (world0\<lparr>calls := [Call_device_queue_state 1 NM_DEVICE_STATE_ACTIVATED
                                  NM_DEVICE_STATE_REASON_NONE]\<rparr>)"
proof -
  have h: "nm_device_get_settings_connection env_secondary 1 = None
           \<or> (\<exists>c. nm_device_get_settings_connection env_secondary 1 = Some c
                  \<and> sc_secondaries (connections world0 c) = [])"
    by (simp add: env_secondary_def world0_def)
  note fact = device_secondaries_none [OF h, of NM_DEVICE_STATE_IP_CHECK NM_DEVICE_STATE_REASON_NONE]
  show ?thesis
    using fact
    by (simp add: env_secondary_def env0_def world0_def get_best_ip4_device_def
          get_best_ip6_device_def)
qed

subsection \<open>Removed and hidden configurations\<close>

lemma deactivate_loop_spec:
  "deactivate_if_active_loop e c L w =
     w\<lparr>calls := calls w @ concat (map (deactivation_calls e c)
        (filter (\<lambda>a. ac_settings_connection (actives w a) = Some c
                \<and> active_state_value (ac_state (actives w a))
                    \<le> active_state_value NM_ACTIVE_CONNECTION_STATE_ACTIVATED) L))\<rparr>"
  by (induction L arbitrary: w) (simp_all add: Let_def log_call_def deactivation_calls_def)

text \<open>
  C10. When a configuration is removed, the active sessions that run it and whose state is
  at most ACTIVATED are asked to deactivate with reason CONNECTION_REMOVED, each once and
  in the order of the manager's list; a request that fails adds a warning and the walk goes
  on; nothing but the calls changes. A visibility change of a configuration that is now
  not visible does the same; of one that is visible it schedules the activate-all scan
  and asks for no deactivation.
\<close>

theorem connection_removed_deactivates:
  "connection_removed e c w =
     w\<lparr>calls := calls w @ concat (map (deactivation_calls e c) (sessions_to_deactivate e c w))\<rparr>
   \<and> connection_visibility_changed e c w =
       (if sc_visible (connections w c)
        then w\<lparr>schedule_activate_all_id := True,
               calls := calls w @ [Call_idle_add_schedule_activate_all]\<rparr>
        else w\<lparr>calls := calls w
                 @ concat (map (deactivation_calls e c) (sessions_to_deactivate e c w))\<rparr>)
   \<and> filter (\<lambda>x. \<exists>a r. x = Call_manager_deactivate_connection a r)
        (concat (map (deactivation_calls e c) (sessions_to_deactivate e c w)))
       = map (\<lambda>a. Call_manager_deactivate_connection a NM_DEVICE_STATE_REASON_CONNECTION_REMOVED)
           (sessions_to_deactivate e c w)"
proof -
  have a: "connection_removed e c w =
     w\<lparr>calls := calls w @ concat (map (deactivation_calls e c) (sessions_to_deactivate e c w))\<rparr>"
    by (simp add: connection_removed_def deactivate_if_active_def deactivate_loop_spec
          sessions_to_deactivate_def)
  have b: "connection_visibility_changed e c w =
       (if sc_visible (connections w c)
        then w\<lparr>schedule_activate_all_id := True,
               calls := calls w @ [Call_idle_add_schedule_activate_all]\<rparr>
        else w\<lparr>calls := calls w
                 @ concat (map (deactivation_calls e c) (sessions_to_deactivate e c w))\<rparr>)"
    by (simp add: connection_visibility_changed_def deactivate_if_active_def deactivate_loop_spec
          sessions_to_deactivate_def schedule_activate_all_def log_call_def)
  have c: "filter (\<lambda>x. \<exists>a r. x = Call_manager_deactivate_connection a r)
        (concat (map (deactivation_calls e c) xs))
       = map (\<lambda>a. Call_manager_deactivate_connection a NM_DEVICE_STATE_REASON_CONNECTION_REMOVED) xs"
    for xs
    by (induction xs) (simp_all add: deactivation_calls_def)
  show ?thesis using a b c by blast
qed

theorem connection_removed_deactivates_witness:
  "sessions_to_deactivate env_removed 7 world_removed = [1, 3]
   \<and> calls (connection_removed env_removed 7 world_removed)
       = [Call_manager_deactivate_connection 1 NM_DEVICE_STATE_REASON_CONNECTION_REMOVED,
          Call_log_warning (LOGW_error_deactivating 7),
          Call_manager_deactivate_connection 3 NM_DEVICE_STATE_REASON_CONNECTION_REMOVED]
   \<and> connection_visibility_changed env_removed 7 world_removed
       = world_removed\<lparr>schedule_activate_all_id := True,
           calls := [Call_idle_add_schedule_activate_all]\<rparr>"
  using connection_removed_deactivates [of env_removed 7 world_removed]
  by (simp add: env_removed_def env0_def world_removed_def world0_def
        sessions_to_deactivate_def deactivation_calls_def)

end
